theory Spec2Isabelle
  imports Complex_Main
begin

section \<open>Numbers, vectors and quaternions\<close>

text \<open>
  JavaScript numbers are modelled by exact rationals. The quarter-turn angle
  \<open>(Math.PI / 2) * direction\<close> is taken as an exact multiple of a right angle, so that
  its cosine and sine are 0, 1 or -1. \<open>Math.round\<close> rounds halves towards plus
  infinity, as ECMAScript specifies.
\<close>

definition Math_round :: "rat \<Rightarrow> int" where
  "Math_round v = \<lfloor>v + 1 / 2\<rfloor>"

record vector3 =
  vx :: rat
  vy :: rat
  vz :: rat

record quat =
  qx :: rat
  qy :: rat
  qz :: rat
  qw :: rat

definition vec :: "rat \<Rightarrow> rat \<Rightarrow> rat \<Rightarrow> vector3" where
  "vec a b c = \<lparr>vx = a, vy = b, vz = c\<rparr>"

definition dot :: "vector3 \<Rightarrow> vector3 \<Rightarrow> rat" where
  "dot a b = vx a * vx b + vy a * vy b + vz a * vz b"

definition identityQuaternion :: quat where
  "identityQuaternion = \<lparr>qx = 0, qy = 0, qz = 0, qw = 1\<rparr>"

text \<open>\<open>Vector3.applyQuaternion\<close> of the three.js library: \<open>v + w t + q \<times> t\<close> with \<open>t = 2 (q \<times> v)\<close>.\<close>

definition applyQuaternion :: "vector3 \<Rightarrow> quat \<Rightarrow> vector3" where
  "applyQuaternion v q =
     (let tx = 2 * (qy q * vz v - qz q * vy v);
          ty = 2 * (qz q * vx v - qx q * vz v);
          tz = 2 * (qx q * vy v - qy q * vx v)
      in \<lparr>vx = vx v + qw q * tx + qy q * tz - qz q * ty,
          vy = vy v + qw q * ty + qz q * tx - qx q * tz,
          vz = vz v + qw q * tz + qx q * ty - qy q * tx\<rparr>)"

text \<open>Cosine and sine of \<open>direction\<close> right angles.\<close>

definition cosQuarter :: "int \<Rightarrow> rat" where
  "cosQuarter d = (if d mod 4 = 0 then 1 else if d mod 4 = 2 then - 1 else 0)"

definition sinQuarter :: "int \<Rightarrow> rat" where
  "sinQuarter d = (if d mod 4 = 1 then 1 else if d mod 4 = 3 then - 1 else 0)"

section \<open>Pieces\<close>

text \<open>The colour table \<open>COLORS\<close>, as the hexadecimal values of the source.\<close>

definition white :: nat where "white = 16777215"
definition yellow :: nat where "yellow = 16766208"
definition red :: nat where "red = 12852794"
definition orange :: nat where "orange = 16734208"
definition blue :: nat where "blue = 20922"
definition green :: nat where "green = 40544"
definition black :: nat where "black = 1118481"

datatype face_material = MeshLambertMaterial nat | MeshPhongMaterial nat

fun getHex :: "face_material \<Rightarrow> nat" where
  "getHex (MeshLambertMaterial c) = c"
| "getHex (MeshPhongMaterial c) = c"

text \<open>\<open>getFaceMaterial(color)\<close>: \<open>null\<close> is \<open>None\<close>.\<close>

fun getFaceMaterial :: "nat option \<Rightarrow> face_material" where
  "getFaceMaterial None = MeshLambertMaterial black"
| "getFaceMaterial (Some color) = MeshPhongMaterial color"

text \<open>\<open>cubie.userData\<close>: the logical grid position and the grid position at creation.\<close>

record userData =
  ud_x :: int
  ud_y :: int
  ud_z :: int
  origX :: int
  origY :: int
  origZ :: int

text \<open>
  A cubie is a mesh: its local \<open>position\<close>, its \<open>quaternion\<close> (the identity for a new
  mesh), its array of six face materials in the order +X, -X, +Y, -Y, +Z, -Z, and its
  \<open>userData\<close>.
\<close>

record cubie =
  position :: vector3
  quaternion :: quat
  material :: "face_material list"
  userData :: userData

text \<open>\<open>createCubie(x, y, z, offset)\<close> followed by the assignment of \<open>userData\<close> in \<open>createCube\<close>.\<close>

definition createCubie :: "nat \<Rightarrow> rat \<Rightarrow> int \<Rightarrow> int \<Rightarrow> int \<Rightarrow> cubie" where
  "createCubie n cs x y z =
     (let offset = (of_nat n - 1) / 2 in
      \<lparr>position = vec ((of_int x - offset) * cs) ((of_int y - offset) * cs) ((of_int z - offset) * cs),
       quaternion = identityQuaternion,
       material =
         [getFaceMaterial (if x = int n - 1 then Some red else None),
          getFaceMaterial (if x = 0 then Some orange else None),
          getFaceMaterial (if y = int n - 1 then Some white else None),
          getFaceMaterial (if y = 0 then Some yellow else None),
          getFaceMaterial (if z = int n - 1 then Some blue else None),
          getFaceMaterial (if z = 0 then Some green else None)],
       userData = \<lparr>ud_x = x, ud_y = y, ud_z = z, origX = x, origY = y, origZ = z\<rparr>\<rparr>)"

definition onSurface :: "nat \<Rightarrow> int \<Rightarrow> int \<Rightarrow> int \<Rightarrow> bool" where
  "onSurface n x y z \<longleftrightarrow>
     x = 0 \<or> x = int n - 1 \<or> y = 0 \<or> y = int n - 1 \<or> z = 0 \<or> z = int n - 1"

text \<open>\<open>createCube()\<close>: the three nested loops, keeping the surface cubies.\<close>

definition createCube :: "nat \<Rightarrow> rat \<Rightarrow> cubie list" where
  "createCube n cs =
     [createCubie n cs (int x) (int y) (int z).
        x \<leftarrow> [0..<n], y \<leftarrow> [0..<n], z \<leftarrow> [0..<n], onSurface n (int x) (int y) (int z)]"

section \<open>The puzzle and the session state\<close>

text \<open>
  The fields of a \<open>RubiksCube\<close> (\<open>size\<close>, \<open>cubeSize\<close>, \<open>cubies\<close>) together with the
  session fields of the global \<open>state\<close> that \<open>rotate\<close> and \<open>scramble\<close> read and write.
  \<open>solved\<close> is \<open>state.isSolved\<close>; \<open>modalShown\<close> records \<open>showSolvedModal()\<close>.
  \<open>pending\<close> holds the local variables \<open>axis\<close>, \<open>direction\<close> and \<open>cubiesInLayer\<close> of a
  call of \<open>rotate\<close> between its first half and its second half (while it awaits the
  animation); the cubies are referred to by their index in \<open>cubies\<close>.
\<close>

record game =
  sizeN :: nat
  cubeSize :: rat
  cubies :: "cubie list"
  isAnimating :: bool
  moveQueue :: "(string \<times> int \<times> int) list"
  moves :: nat
  isTimerRunning :: bool
  solved :: bool
  modalShown :: bool
  pending :: "(string \<times> int \<times> nat list) option"

text \<open>The constructor after \<open>createPuzzle('cube', size)\<close> on the initial global state.\<close>

definition RubiksCube :: "nat \<Rightarrow> game" where
  "RubiksCube n =
     (let cs = (if n > 10 then 10 / of_nat n else 1) in
      \<lparr>sizeN = n, cubeSize = cs, cubies = createCube n cs,
       isAnimating = False, moveQueue = [], moves = 0, isTimerRunning = False,
       solved = True, modalShown = False, pending = None\<rparr>)"

definition startTimer :: "game \<Rightarrow> game" where
  "startTimer g = g\<lparr>isTimerRunning := True\<rparr>"

definition stopTimer :: "game \<Rightarrow> game" where
  "stopTimer g = g\<lparr>isTimerRunning := False\<rparr>"

section \<open>Layer selection\<close>

text \<open>The predicate of the \<open>filter\<close> in \<open>getCubiesInLayer(axis, layer)\<close>.\<close>

definition inLayer :: "nat \<Rightarrow> rat \<Rightarrow> string \<Rightarrow> int \<Rightarrow> cubie \<Rightarrow> bool" where
  "inLayer n cs axis layer c =
     (let offset = (of_nat n - 1) / 2;
          threshold = 1 / 100;
          layerPos = (of_int layer - offset) * cs
      in if axis = ''x'' then \<bar>vx (position c) - layerPos\<bar> < threshold
         else if axis = ''y'' then \<bar>vy (position c) - layerPos\<bar> < threshold
         else if axis = ''z'' then \<bar>vz (position c) - layerPos\<bar> < threshold
         else False)"

text \<open>\<open>getCubiesInLayer\<close>; the result lists the selected cubies by index, in array order.\<close>

definition getCubiesInLayer :: "game \<Rightarrow> string \<Rightarrow> int \<Rightarrow> nat list" where
  "getCubiesInLayer g axis layer =
     filter (\<lambda>i. inLayer (sizeN g) (cubeSize g) axis layer (cubies g ! i)) [0..<length (cubies g)]"

section \<open>The quarter turn\<close>

text \<open>
  The world position of a cubie that sits in \<open>rotationGroup\<close> while the group is turned by
  \<open>direction\<close> right angles about \<open>axis\<close>. Any other property name leaves the group unturned.
  The turn is the exact one. In the engine the cosine of \<open>Math.PI / 2\<close> is about 6.1e-17
  and not 0, so that the two components across the axis carry an error of that order
  there; the component along the axis is copied unchanged, in the engine as here. The
  statements below that evaluate a turn read the component along the axis, or read the
  other two after the \<open>Math.round\<close> of \<open>updateCubiePosition\<close> at pieces whose exact
  components over \<open>cubeSize\<close> are integers, where an error of that order does not change
  the rounded value.
\<close>

definition getWorldPosition :: "string \<Rightarrow> int \<Rightarrow> vector3 \<Rightarrow> vector3" where
  "getWorldPosition axis direction p =
     (let c = cosQuarter direction; s = sinQuarter direction in
      if axis = ''x'' then \<lparr>vx = vx p, vy = vy p * c - vz p * s, vz = vy p * s + vz p * c\<rparr>
      else if axis = ''y'' then \<lparr>vx = vx p * c + vz p * s, vy = vy p, vz = vz p * c - vx p * s\<rparr>
      else if axis = ''z'' then \<lparr>vx = vx p * c - vy p * s, vy = vx p * s + vy p * c, vz = vz p\<rparr>
      else p)"

text \<open>\<open>updateCubiePosition(cubie, axis, direction)\<close>; neither argument is read.\<close>

definition updateCubiePosition :: "nat \<Rightarrow> rat \<Rightarrow> cubie \<Rightarrow> cubie" where
  "updateCubiePosition n cs c =
     (let offset = (of_nat n - 1) / 2;
          px = of_int (Math_round (vx (position c) / cs)) * cs;
          py = of_int (Math_round (vy (position c) / cs)) * cs;
          pz = of_int (Math_round (vz (position c) / cs)) * cs
      in c\<lparr>position := vec px py pz,
           userData := (userData c)\<lparr>ud_x := Math_round (px / cs + offset),
                                    ud_y := Math_round (py / cs + offset),
                                    ud_z := Math_round (pz / cs + offset)\<rparr>\<rparr>)"

text \<open>
  The body of the second \<open>forEach\<close> of \<open>rotate\<close>: the cubie takes its world position as
  its position and its logical position is recomputed. The quaternion is not written.
\<close>

definition settleCubie :: "nat \<Rightarrow> rat \<Rightarrow> string \<Rightarrow> int \<Rightarrow> cubie \<Rightarrow> cubie" where
  "settleCubie n cs axis direction c =
     updateCubiePosition n cs (c\<lparr>position := getWorldPosition axis direction (position c)\<rparr>)"

definition settleLayer :: "nat \<Rightarrow> rat \<Rightarrow> string \<Rightarrow> int \<Rightarrow> nat list \<Rightarrow> cubie list \<Rightarrow> cubie list" where
  "settleLayer n cs axis direction sel cs0 =
     fold (\<lambda>i l. l[i := settleCubie n cs axis direction (l ! i)]) sel cs0"

section \<open>The solved check\<close>

definition localNormal :: "nat \<Rightarrow> vector3" where
  "localNormal faceIndex =
     (if faceIndex = 0 then vec 1 0 0
      else if faceIndex = 1 then vec (- 1) 0 0
      else if faceIndex = 2 then vec 0 1 0
      else if faceIndex = 3 then vec 0 (- 1) 0
      else if faceIndex = 4 then vec 0 0 1
      else if faceIndex = 5 then vec 0 0 (- 1)
      else vec 0 0 0)"

text \<open>The table \<open>axes\<close> of \<open>getFaceColor\<close>.\<close>

definition axesTable :: "(vector3 \<times> nat) list" where
  "axesTable = [(vec 1 0 0, 0), (vec (- 1) 0 0, 1), (vec 0 1 0, 2),
                (vec 0 (- 1) 0, 3), (vec 0 0 1, 4), (vec 0 0 (- 1), 5)]"

text \<open>
  One round of the \<open>forEach\<close> over \<open>axes\<close>; \<open>maxDot\<close> is \<open>None\<close> for minus infinity.
\<close>

definition bestStep :: "vector3 \<Rightarrow> (vector3 \<times> nat) \<Rightarrow> (rat option \<times> nat) \<Rightarrow> (rat option \<times> nat)" where
  "bestStep worldNormal a acc =
     (let d = dot worldNormal (fst a) in
      case fst acc of
        None \<Rightarrow> (Some d, snd a)
      | Some maxDot \<Rightarrow> if d > maxDot then (Some d, snd a) else acc)"

definition bestIndex :: "vector3 \<Rightarrow> nat" where
  "bestIndex worldNormal = snd (fold (bestStep worldNormal) axesTable (None, 0))"

definition getFaceColor :: "cubie \<Rightarrow> nat \<Rightarrow> nat" where
  "getFaceColor c faceIndex =
     (let worldNormal = applyQuaternion (localNormal faceIndex) (quaternion c)
      in getHex (material c ! bestIndex worldNormal))"

text \<open>The six tests of \<open>isSolved\<close> that decide which list a cubie's colour is pushed to.\<close>

definition onFace :: "nat \<Rightarrow> nat \<Rightarrow> cubie \<Rightarrow> bool" where
  "onFace n faceIndex c =
     (if faceIndex = 0 then ud_x (userData c) = int n - 1
      else if faceIndex = 1 then ud_x (userData c) = 0
      else if faceIndex = 2 then ud_y (userData c) = int n - 1
      else if faceIndex = 3 then ud_y (userData c) = 0
      else if faceIndex = 4 then ud_z (userData c) = int n - 1
      else if faceIndex = 5 then ud_z (userData c) = 0
      else False)"

definition faceList :: "nat \<Rightarrow> cubie list \<Rightarrow> nat \<Rightarrow> nat list" where
  "faceList n cs faceIndex = map (\<lambda>c. getFaceColor c faceIndex) (filter (onFace n faceIndex) cs)"

definition uniformFace :: "nat list \<Rightarrow> bool" where
  "uniformFace face =
     (case face of [] \<Rightarrow> True | firstColor # _ \<Rightarrow> list_all (\<lambda>c. c = firstColor) face)"

definition isSolved :: "game \<Rightarrow> bool" where
  "isSolved g = list_all (\<lambda>k. uniformFace (faceList (sizeN g) (cubies g) k)) [0..<6]"

section \<open>rotate\<close>

text \<open>
  The first half of \<open>rotate\<close>, from \<open>state.isAnimating = true\<close> to the computation of the
  angle: the timer, the move counter and the selection of the layer.
\<close>

definition beginTurn :: "game \<Rightarrow> string \<Rightarrow> int \<Rightarrow> int \<Rightarrow> game" where
  "beginTurn g axis layer direction =
     (let g1 = g\<lparr>isAnimating := True\<rparr>;
          g2 = (if \<not> isTimerRunning g1 \<and> solved g1 then (startTimer g1)\<lparr>solved := False\<rparr> else g1);
          g3 = g2\<lparr>moves := moves g2 + 1\<rparr>
      in g3\<lparr>pending := Some (axis, direction, getCubiesInLayer g3 axis layer)\<rparr>)"

text \<open>
  \<open>rotate(axis, layer, direction)\<close> with \<open>animate\<close> left at its default \<open>true\<close>, run up to
  its \<open>await\<close>: the request is queued while a turn is in progress, and begun otherwise.
\<close>

definition rotateAnimated :: "game \<Rightarrow> string \<Rightarrow> int \<Rightarrow> int \<Rightarrow> game" where
  "rotateAnimated g axis layer direction =
     (if isAnimating g then g\<lparr>moveQueue := moveQueue g @ [(axis, layer, direction)]\<rparr>
      else beginTurn g axis layer direction)"

text \<open>
  The second half of \<open>rotate\<close>, run when the animation has ended (or at once for a turn
  that is not animated): the selected cubies are settled, the solved check runs, and
  the head of the queue is passed to \<open>rotate\<close> without an \<open>animate\<close> argument.
\<close>

definition finishTurn :: "game \<Rightarrow> game" where
  "finishTurn g =
     (case pending g of
        None \<Rightarrow> g
      | Some (axis, direction, sel) \<Rightarrow>
          (let g1 = g\<lparr>cubies := settleLayer (sizeN g) (cubeSize g) axis direction sel (cubies g),
                      pending := None, isAnimating := False\<rparr>;
               g2 = (if isSolved g1 then (stopTimer (g1\<lparr>solved := True\<rparr>))\<lparr>modalShown := True\<rparr> else g1)
           in (case moveQueue g2 of
                 [] \<Rightarrow> g2
               | next # rest \<Rightarrow>
                   rotateAnimated (g2\<lparr>moveQueue := rest\<rparr>) (fst next) (fst (snd next)) (snd (snd next)))))"

definition rotate :: "game \<Rightarrow> string \<Rightarrow> int \<Rightarrow> int \<Rightarrow> bool \<Rightarrow> game" where
  "rotate g axis layer direction animate =
     (if isAnimating g then g\<lparr>moveQueue := moveQueue g @ [(axis, layer, direction)]\<rparr>
      else let g1 = beginTurn g axis layer direction
           in if animate then g1 else finishTurn g1)"

section \<open>scramble\<close>

text \<open>
  The program's only use of \<open>Math.random()\<close> is the expression
  \<open>Math.floor(Math.random() * n)\<close>, an index. Its value is read from a source \<open>rnd\<close> of
  draws: \<open>rnd j n\<close> is the integer that the \<open>j\<close>-th evaluation of the expression yields
  when its factor is \<open>n\<close>. Round \<open>i\<close> of the loop of \<open>scramble\<close> makes the draws \<open>3 i\<close>,
  \<open>3 i + 1\<close> and \<open>3 i + 2\<close>, with the factors 3, \<open>this.size\<close> and 2. The floating-point
  product and its floor are thus left to the engine; what a theorem needs of a draw
  it states as a hypothesis on \<open>rnd\<close>. \<open>pickAxis\<close> and \<open>pickDirection\<close> are the reads
  \<open>axes[k]\<close> and \<open>directions[k]\<close>; an index outside the array reads \<open>undefined\<close>, written
  \<open>''undefined''\<close> for the axis and 0 for the direction.
\<close>

definition pickAxis :: "int \<Rightarrow> string" where
  "pickAxis k = (if k = 0 then ''x'' else if k = 1 then ''y'' else if k = 2 then ''z'' else ''undefined'')"

definition pickDirection :: "int \<Rightarrow> int" where
  "pickDirection k = (if k = 0 then 1 else if k = 1 then - 1 else 0)"

text \<open>
  The loop of \<open>scramble\<close>, with \<open>k\<close> rounds left from round \<open>i\<close> on. Beside the state it
  returns the log of the calls of \<open>rotate\<close> it has made: axis, layer, direction, animate.
\<close>

fun scrambleLoop :: "(nat \<Rightarrow> nat \<Rightarrow> int) \<Rightarrow> nat \<Rightarrow> nat \<Rightarrow> game \<times> (string \<times> int \<times> int \<times> bool) list
    \<Rightarrow> game \<times> (string \<times> int \<times> int \<times> bool) list" where
  "scrambleLoop rnd i 0 st = st"
| "scrambleLoop rnd i (Suc k) (g, calls) =
     (let axis = pickAxis (rnd (3 * i) 3);
          layer = rnd (3 * i + 1) (sizeN g);
          direction = pickDirection (rnd (3 * i + 2) 2)
      in scrambleLoop rnd (Suc i) k
           (rotate g axis layer direction False, calls @ [(axis, layer, direction, False)]))"

definition scramble :: "game \<Rightarrow> nat option \<Rightarrow> (nat \<Rightarrow> nat \<Rightarrow> int) \<Rightarrow> game \<times> (string \<times> int \<times> int \<times> bool) list" where
  "scramble g movesArg rnd =
     (let n = (case movesArg of None \<Rightarrow> max 20 (sizeN g * 5) | Some m \<Rightarrow> m);
          r = scrambleLoop rnd 0 n (g, [])
      in ((fst r)\<lparr>solved := False, moves := 0\<rparr>, snd r))"

section \<open>reset\<close>

text \<open>
  \<open>reset()\<close> replaces the cubies by newly created ones. The cubies that a turn in
  progress has selected are then no longer among \<open>cubies\<close>, so the second half of that
  turn settles none of the new ones.
\<close>

definition reset :: "game \<Rightarrow> game" where
  "reset g =
     stopTimer (g\<lparr>cubies := createCube (sizeN g) (cubeSize g), solved := True, moves := 0,
                  pending := (case pending g of
                                None \<Rightarrow> None
                              | Some (axis, direction, sel) \<Rightarrow> Some (axis, direction, []))\<rparr>)"

section \<open>The drag gesture\<close>

text \<open>
  The pointer fields of \<open>state\<close>. \<open>selectedFace\<close> is the ray hit: the local normal of the
  face that was hit and the cubie that was hit, by index.
\<close>

record pointer =
  isDragging :: bool
  dragStart :: "rat \<times> rat"
  selectedFace :: "(vector3 \<times> nat) option"

text \<open>The branches of \<open>onMouseMove\<close> that choose \<open>axis\<close>, \<open>layer\<close> and \<open>direction\<close>.\<close>

definition dragCommand :: "vector3 \<Rightarrow> cubie \<Rightarrow> rat \<Rightarrow> rat \<Rightarrow> string \<times> int \<times> int" where
  "dragCommand normal c dx dy =
     (let faceNormal = applyQuaternion normal (quaternion c);
          x = ud_x (userData c); y = ud_y (userData c); z = ud_z (userData c)
      in if \<bar>vy faceNormal\<bar> > 1 / 2 then
           (if \<bar>dx\<bar> > \<bar>dy\<bar>
            then (''z'', z, (if dx > 0 then 1 else - 1) * (if vy faceNormal < 0 then - 1 else 1))
            else (''x'', x, (if dy > 0 then - 1 else 1) * (if vy faceNormal < 0 then - 1 else 1)))
         else if \<bar>vx faceNormal\<bar> > 1 / 2 then
           (if \<bar>dx\<bar> > \<bar>dy\<bar>
            then (''y'', y, (if dx > 0 then - 1 else 1) * (if vx faceNormal < 0 then - 1 else 1))
            else (''z'', z, (if dy > 0 then 1 else - 1) * (if vx faceNormal < 0 then - 1 else 1)))
         else
           (if \<bar>dx\<bar> > \<bar>dy\<bar>
            then (''y'', y, (if dx > 0 then - 1 else 1) * (if vz faceNormal < 0 then - 1 else 1))
            else (''x'', x, (if dy > 0 then 1 else - 1) * (if vz faceNormal < 0 then - 1 else 1))))"

text \<open>
  \<open>onMouseMove(event)\<close>. Beside the new state it returns the command it has passed to
  \<open>rotate\<close>, if any. A ray hit always refers to a cubie of the puzzle.
\<close>

definition onMouseMove :: "game \<Rightarrow> pointer \<Rightarrow> rat \<Rightarrow> rat
    \<Rightarrow> game \<times> pointer \<times> (string \<times> int \<times> int) option" where
  "onMouseMove g p clientX clientY =
     (case selectedFace p of
        None \<Rightarrow> (g, p, None)
      | Some (normal, obj) \<Rightarrow>
          if \<not> isDragging p \<or> \<not> obj < length (cubies g) then (g, p, None)
          else
            let dx = clientX - fst (dragStart p);
                dy = clientY - snd (dragStart p);
                threshold = 30
            in if \<bar>dx\<bar> > threshold \<or> \<bar>dy\<bar> > threshold then
                 (let cmd = dragCommand normal (cubies g ! obj) dx dy
                  in (rotate g (fst cmd) (fst (snd cmd)) (snd (snd cmd)) True,
                      p\<lparr>isDragging := False, selectedFace := None\<rparr>, Some cmd))
               else (g, p, None))"

section \<open>Notions used to state the properties\<close>

text \<open>The logical grid position of a piece, and its component along an axis.\<close>

definition gridPosition :: "cubie \<Rightarrow> int \<times> int \<times> int" where
  "gridPosition c = (ud_x (userData c), ud_y (userData c), ud_z (userData c))"

definition layerCoordinate :: "string \<Rightarrow> cubie \<Rightarrow> int" where
  "layerCoordinate axis c =
     (if axis = ''x'' then ud_x (userData c)
      else if axis = ''y'' then ud_y (userData c)
      else ud_z (userData c))"

text \<open>The canonical colour of the directions +X, -X, +Y, -Y, +Z, -Z, numbered 0 to 5.\<close>

definition canonicalColor :: "nat \<Rightarrow> nat" where
  "canonicalColor k = [red, orange, white, yellow, blue, green] ! k"

definition gridTriples :: "nat \<Rightarrow> (nat \<times> nat \<times> nat) list" where
  "gridTriples n = List.product [0..<n] (List.product [0..<n] [0..<n])"

text \<open>
  A cube is at rest on its grid when every piece has a grid position inside the cube
  and sits at the spatial position of that grid position.
\<close>

definition cubieAtRest :: "nat \<Rightarrow> rat \<Rightarrow> cubie \<Rightarrow> bool" where
  "cubieAtRest n cs c \<longleftrightarrow>
     position c = vec ((of_int (ud_x (userData c)) - (of_nat n - 1) / 2) * cs)
                      ((of_int (ud_y (userData c)) - (of_nat n - 1) / 2) * cs)
                      ((of_int (ud_z (userData c)) - (of_nat n - 1) / 2) * cs)
     \<and> 0 \<le> ud_x (userData c) \<and> ud_x (userData c) < int n
     \<and> 0 \<le> ud_y (userData c) \<and> ud_y (userData c) < int n
     \<and> 0 \<le> ud_z (userData c) \<and> ud_z (userData c) < int n"

definition atRest :: "game \<Rightarrow> bool" where
  "atRest g \<longleftrightarrow> list_all (cubieAtRest (sizeN g) (cubeSize g)) (cubies g)"

text \<open>
  The states a session reaches from a newly constructed cube: by calls of \<open>rotate\<close>, by
  the end of an animation, and by calls of \<open>scramble\<close> and of \<open>reset\<close>.
\<close>

inductive reachable :: "game \<Rightarrow> bool" where
  reachable_new: "reachable (RubiksCube n)"
| reachable_rotate: "reachable g \<Longrightarrow> reachable (rotate g axis layer direction animate)"
| reachable_finish: "reachable g \<Longrightarrow> reachable (finishTurn g)"
| reachable_scramble: "reachable g \<Longrightarrow> reachable (fst (scramble g movesArg rnd))"
| reachable_reset: "reachable g \<Longrightarrow> reachable (reset g)"

subsection \<open>The solved check as the specification words it\<close>








subsection \<open>The gesture table as the specification words it\<close>

datatype faceClass = ClassY | ClassX | ClassZ

text \<open>The first of Y, X, Z whose component of the normal exceeds 0.5 in magnitude.\<close>

definition classifyNormal :: "vector3 \<Rightarrow> faceClass option" where
  "classifyNormal v =
     (if \<bar>vy v\<bar> > 1 / 2 then Some ClassY
      else if \<bar>vx v\<bar> > 1 / 2 then Some ClassX
      else if \<bar>vz v\<bar> > 1 / 2 then Some ClassZ
      else None)"

definition dominantComponent :: "faceClass \<Rightarrow> vector3 \<Rightarrow> rat" where
  "dominantComponent k v = (case k of ClassY \<Rightarrow> vy v | ClassX \<Rightarrow> vx v | ClassZ \<Rightarrow> vz v)"

text \<open>The table: axis and base direction for a face class and a drag orientation.\<close>

definition gestureTable :: "faceClass \<Rightarrow> bool \<Rightarrow> rat \<Rightarrow> rat \<Rightarrow> string \<times> int" where
  "gestureTable k horizontal dx dy =
     (case (k, horizontal) of
        (ClassY, True) \<Rightarrow> (''z'', if dx > 0 then 1 else - 1)
      | (ClassY, False) \<Rightarrow> (''x'', if dy > 0 then - 1 else 1)
      | (ClassX, True) \<Rightarrow> (''y'', if dx > 0 then - 1 else 1)
      | (ClassX, False) \<Rightarrow> (''z'', if dy > 0 then 1 else - 1)
      | (ClassZ, True) \<Rightarrow> (''y'', if dx > 0 then - 1 else 1)
      | (ClassZ, False) \<Rightarrow> (''x'', if dy > 0 then 1 else - 1))"

definition gestureSpec :: "vector3 \<Rightarrow> cubie \<Rightarrow> rat \<Rightarrow> rat \<Rightarrow> (string \<times> int \<times> int) option" where
  "gestureSpec worldNormal c dx dy =
     (case classifyNormal worldNormal of
        None \<Rightarrow> None
      | Some k \<Rightarrow>
          let entry = gestureTable k (\<bar>dx\<bar> > \<bar>dy\<bar>) dx dy;
              direction = (if dominantComponent k worldNormal < 0 then - snd entry else snd entry)
          in Some (fst entry, layerCoordinate (fst entry) c, direction))"

subsection \<open>Auxiliary notions of the proofs\<close>

text \<open>
  What one pass of \<open>rotate\<close> does to one piece and to all pieces: a piece that the
  layer test selects is settled, every other piece is left as it is.
\<close>

definition turnLayer :: "game \<Rightarrow> string \<Rightarrow> int \<Rightarrow> int \<Rightarrow> cubie list" where
  "turnLayer g axis layer direction =
     map (\<lambda>c. if inLayer (sizeN g) (cubeSize g) axis layer c
               then settleCubie (sizeN g) (cubeSize g) axis direction c else c) (cubies g)"

definition turnCubie :: "nat \<Rightarrow> rat \<Rightarrow> string \<Rightarrow> int \<Rightarrow> int \<Rightarrow> cubie \<Rightarrow> cubie" where
  "turnCubie n cs axis layer direction c =
     (if inLayer n cs axis layer c then settleCubie n cs axis direction c else c)"


text \<open>The component of a position along an axis.\<close>

definition positionCoordinate :: "string \<Rightarrow> vector3 \<Rightarrow> rat" where
  "positionCoordinate axis v = (if axis = ''x'' then vx v else if axis = ''y'' then vy v else vz v)"

text \<open>
  The call of \<open>rotate\<close> that round \<open>i\<close> of the loop of \<open>scramble\<close> makes, and the effect of
  a logged call on the state.
\<close>

definition loggedCall :: "nat \<Rightarrow> (nat \<Rightarrow> nat \<Rightarrow> int) \<Rightarrow> nat \<Rightarrow> string \<times> int \<times> int \<times> bool" where
  "loggedCall n rnd i =
     (pickAxis (rnd (3 * i) 3), rnd (3 * i + 1) n, pickDirection (rnd (3 * i + 2) 2), False)"

definition applyCall :: "game \<Rightarrow> string \<times> int \<times> int \<times> bool \<Rightarrow> game" where
  "applyCall g c = rotate g (fst c) (fst (snd c)) (fst (snd (snd c))) (snd (snd (snd c)))"

text \<open>
  The state in which \<open>scramble()\<close> returns when it is called, with every draw 0, on a
  new cube of size 3 while the animated turn \<open>rotate('x', 0, 1)\<close> is in progress.
\<close>

definition scrambledWhileTurning :: game where
  "scrambledWhileTurning = fst (scramble (rotate (RubiksCube 3) ''x'' 0 1 True) None (\<lambda>j n. 0))"

text \<open>
  The quarter turn on integer grid positions, about the centre \<open>m\<close> of a grid of odd
  size \<open>2 m + 1\<close>, and a piece put at rest on a given grid position.
\<close>

definition cosInt :: "int \<Rightarrow> int" where
  "cosInt d = (if d mod 4 = 0 then 1 else if d mod 4 = 2 then - 1 else 0)"

definition sinInt :: "int \<Rightarrow> int" where
  "sinInt d = (if d mod 4 = 1 then 1 else if d mod 4 = 3 then - 1 else 0)"

definition turnGrid :: "int \<Rightarrow> string \<Rightarrow> int \<Rightarrow> int \<times> int \<times> int \<Rightarrow> int \<times> int \<times> int" where
  "turnGrid m axis d p =
     (case p of (x, y, z) \<Rightarrow>
        let c = cosInt d; s = sinInt d in
        if axis = ''x'' then (x, m + ((y - m) * c - (z - m) * s), m + ((y - m) * s + (z - m) * c))
        else if axis = ''y'' then (m + ((x - m) * c + (z - m) * s), y, m + ((z - m) * c - (x - m) * s))
        else if axis = ''z'' then (m + ((x - m) * c - (y - m) * s), m + ((x - m) * s + (y - m) * c), z)
        else p)"

definition placeAt :: "nat \<Rightarrow> rat \<Rightarrow> int \<times> int \<times> int \<Rightarrow> cubie \<Rightarrow> cubie" where
  "placeAt n cs p c =
     (case p of (x, y, z) \<Rightarrow>
        c\<lparr>position := vec ((of_int x - (of_nat n - 1) / 2) * cs) ((of_int y - (of_nat n - 1) / 2) * cs)
                          ((of_int z - (of_nat n - 1) / 2) * cs),
          userData := (userData c)\<lparr>ud_x := x, ud_y := y, ud_z := z\<rparr>\<rparr>)"




section \<open>Construction of the cube\<close>

lemma concat_product:
  "concat (map (\<lambda>x. concat (map (\<lambda>y. f x y) ys)) xs) = concat (map (\<lambda>(x, y). f x y) (List.product xs ys))"
  by (induction xs) (simp_all add: map_concat comp_def)

lemma concat_if_singleton:
  "concat (map (\<lambda>a. if P a then [f a] else []) xs) = map f (filter P xs)"
  by (induction xs) simp_all

lemma createCube_product:
  "createCube n cs =
     map (\<lambda>(x, y, z). createCubie n cs (int x) (int y) (int z))
       (filter (\<lambda>(x, y, z). onSurface n (int x) (int y) (int z)) (gridTriples n))"
proof -
  have "createCube n cs =
      concat (map (\<lambda>(x, y, z). if onSurface n (int x) (int y) (int z)
                 then [createCubie n cs (int x) (int y) (int z)] else []) (gridTriples n))"
    unfolding createCube_def gridTriples_def
    by (simp add: concat_product split_def)
  also have "\<dots> = map (\<lambda>(x, y, z). createCubie n cs (int x) (int y) (int z))
       (filter (\<lambda>(x, y, z). onSurface n (int x) (int y) (int z)) (gridTriples n))"
    by (simp add: concat_if_singleton split_def)
  finally show ?thesis .
qed


lemma createCubie_sel:
  "position (createCubie n cs x y z) =
     vec ((of_int x - (of_nat n - 1) / 2) * cs) ((of_int y - (of_nat n - 1) / 2) * cs)
         ((of_int z - (of_nat n - 1) / 2) * cs)"
  "quaternion (createCubie n cs x y z) = identityQuaternion"
  "userData (createCubie n cs x y z) = \<lparr>ud_x = x, ud_y = y, ud_z = z, origX = x, origY = y, origZ = z\<rparr>"
  "material (createCubie n cs x y z) =
         [getFaceMaterial (if x = int n - 1 then Some red else None),
          getFaceMaterial (if x = 0 then Some orange else None),
          getFaceMaterial (if y = int n - 1 then Some white else None),
          getFaceMaterial (if y = 0 then Some yellow else None),
          getFaceMaterial (if z = int n - 1 then Some blue else None),
          getFaceMaterial (if z = 0 then Some green else None)]"
  by (simp_all add: createCubie_def Let_def)

lemma gridPosition_createCubie: "gridPosition (createCubie n cs x y z) = (x, y, z)"
  by (simp add: gridPosition_def createCubie_sel)

lemma distinct_gridTriples: "distinct (gridTriples n)"
  by (simp add: gridTriples_def distinct_product)

lemma set_gridTriples: "set (gridTriples n) = {(x, y, z). x < n \<and> y < n \<and> z < n}"
  by (auto simp: gridTriples_def)

lemma map_gridPosition_createCube:
  "map gridPosition (createCube n cs) =
     map (\<lambda>(x, y, z). (int x, int y, int z))
       (filter (\<lambda>(x, y, z). onSurface n (int x) (int y) (int z)) (gridTriples n))"
  by (simp add: createCube_product comp_def split_def gridPosition_createCubie)

lemma distinct_gridPosition_createCube: "distinct (map gridPosition (createCube n cs))"
  unfolding map_gridPosition_createCube
  by (rule distinct_map[THEN iffD2]) (auto simp: distinct_gridTriples inj_on_def)

lemma set_gridPosition_createCube:
  "set (map gridPosition (createCube n cs)) =
     {(x, y, z). 0 \<le> x \<and> x < int n \<and> 0 \<le> y \<and> y < int n \<and> 0 \<le> z \<and> z < int n
        \<and> (x = 0 \<or> x = int n - 1 \<or> y = 0 \<or> y = int n - 1 \<or> z = 0 \<or> z = int n - 1)}"
  (is "?L = ?R")
proof
  show "?L \<subseteq> ?R"
    unfolding map_gridPosition_createCube
    by (auto simp: set_gridTriples onSurface_def)
  show "?R \<subseteq> ?L"
  proof
    fix t assume "t \<in> ?R"
    then obtain x y z where t: "t = (x, y, z)" and
      h: "0 \<le> x" "x < int n" "0 \<le> y" "y < int n" "0 \<le> z" "z < int n" "onSurface n x y z"
      by (auto simp: onSurface_def)
    from h have mem: "(nat x, nat y, nat z) \<in> set (filter (\<lambda>(x, y, z). onSurface n (int x) (int y) (int z)) (gridTriples n))"
      by (simp add: set_gridTriples nat_less_iff)
    have "(\<lambda>(x, y, z). (int x, int y, int z)) (nat x, nat y, nat z) \<in> ?L"
      unfolding map_gridPosition_createCube set_map using mem by (rule imageI)
    with h t show "t \<in> ?L" by simp
  qed
qed

lemma set_createCube:
  "set (createCube n cs) =
     {createCubie n cs (int x) (int y) (int z) | x y z.
        x < n \<and> y < n \<and> z < n \<and> onSurface n (int x) (int y) (int z)}"
  unfolding createCube_product
  by (auto simp: set_gridTriples image_iff) blast

lemma createCubie_mem:
  "x < n \<Longrightarrow> y < n \<Longrightarrow> z < n \<Longrightarrow> onSurface n (int x) (int y) (int z)
     \<Longrightarrow> createCubie n cs (int x) (int y) (int z) \<in> set (createCube n cs)"
  unfolding set_createCube by blast

lemma material_createCubie:
  assumes "k < 6"
  shows "material (createCubie n cs x y z) ! k =
           (if onFace n k (createCubie n cs x y z) then MeshPhongMaterial (canonicalColor k)
            else MeshLambertMaterial black)"
proof -
  from assms consider "k = 0" | "k = 1" | "k = 2" | "k = 3" | "k = 4" | "k = 5" by linarith
  then show ?thesis
    by cases (simp_all add: createCubie_sel onFace_def canonicalColor_def)
qed

lemma material_createCube:
  assumes "c \<in> set (createCube n cs)"
  shows "length (material c) = 6"
    and "k < 6 \<Longrightarrow> material c ! k =
           (if onFace n k c then MeshPhongMaterial (canonicalColor k) else MeshLambertMaterial black)"
proof -
  from assms obtain x y z where c: "c = createCubie n cs (int x) (int y) (int z)"
    unfolding set_createCube by auto
  show "length (material c) = 6" by (simp add: c createCubie_sel)
  show "material c ! k =
           (if onFace n k c then MeshPhongMaterial (canonicalColor k) else MeshLambertMaterial black)"
    if "k < 6"
    unfolding c by (rule material_createCubie [OF that])
qed

lemma canonicalColor_values:
  "map canonicalColor [0..<6] = [12852794, 16734208, 16777215, 16766208, 20922, 40544]"
  by (simp add: canonicalColor_def upt_rec red_def orange_def white_def yellow_def blue_def green_def)

lemma black_not_canonical: "black \<notin> set (map canonicalColor [0..<6])"
  by (simp add: canonicalColor_values black_def)

lemma distinct_canonicalColor: "distinct (map canonicalColor [0..<6])"
  by (simp add: canonicalColor_def upt_rec red_def orange_def white_def yellow_def blue_def green_def)

lemma cubies_RubiksCube: "cubies (RubiksCube n) = createCube n (if n > 10 then 10 / of_nat n else 1)"
  by (simp add: RubiksCube_def Let_def)

text \<open>
  Claim C4. For every size \<open>N \<ge> 2\<close> the constructor creates exactly one piece for each
  integer coordinate \<open>(x, y, z)\<close> with every component in \<open>[0, N - 1]\<close> and at least one
  component equal to 0 or \<open>N - 1\<close>, and no other piece. Every piece has six face
  materials. The face of a piece towards a boundary direction on which the piece lies
  is a Phong material in the canonical colour of that direction: 0xc41e3a for +X,
  0xff5800 for -X, 0xffffff for +Y, 0xffd500 for -Y, 0x0051ba for +Z and 0x009e60
  for -Z, six distinct colours that do not depend on the cube. Every other face has no
  colour: it is the Lambert material in 0x111111 that \<open>getFaceMaterial\<close> builds for
  \<open>null\<close>, which is none of the six colours.
\<close>

theorem createCube_surface_shell:
  assumes "2 \<le> n"
  shows "distinct (map gridPosition (cubies (RubiksCube n)))
       \<and> set (map gridPosition (cubies (RubiksCube n))) =
           {(x, y, z). 0 \<le> x \<and> x < int n \<and> 0 \<le> y \<and> y < int n \<and> 0 \<le> z \<and> z < int n
              \<and> (x = 0 \<or> x = int n - 1 \<or> y = 0 \<or> y = int n - 1 \<or> z = 0 \<or> z = int n - 1)}
       \<and> (\<forall>c \<in> set (cubies (RubiksCube n)). length (material c) = 6)
       \<and> (\<forall>c \<in> set (cubies (RubiksCube n)). \<forall>k < 6.
             material c ! k =
               (if onFace n k c then MeshPhongMaterial (canonicalColor k) else MeshLambertMaterial black))
       \<and> map canonicalColor [0..<6] = [12852794, 16734208, 16777215, 16766208, 20922, 40544]
       \<and> distinct (map canonicalColor [0..<6])
       \<and> black = 1118481
       \<and> black \<notin> set (map canonicalColor [0..<6])"
  unfolding cubies_RubiksCube
  by (intro conjI ballI allI impI distinct_gridPosition_createCube set_gridPosition_createCube
        material_createCube canonicalColor_values distinct_canonicalColor black_def
        black_not_canonical)

text \<open>
  The theorem at \<open>N = 3\<close>: the edge piece \<open>(1, 0, 1)\<close> is created, the interior piece
  \<open>(1, 1, 1)\<close> is not, and the corner pieces \<open>(2, 2, 2)\<close> and \<open>(0, 0, 0)\<close> carry the three
  colours of their three boundary directions.
\<close>

theorem createCube_surface_shell_witness:
  "(2::nat) \<le> 3
     \<and> (1, 0, 1) \<in> set (map gridPosition (cubies (RubiksCube 3)))
     \<and> (1, 1, 1) \<notin> set (map gridPosition (cubies (RubiksCube 3)))
     \<and> distinct (map gridPosition (cubies (RubiksCube 3)))
     \<and> createCubie 3 1 2 2 2 \<in> set (cubies (RubiksCube 3))
     \<and> createCubie 3 1 0 0 0 \<in> set (cubies (RubiksCube 3))
     \<and> material (createCubie 3 1 2 2 2) ! 0 = MeshPhongMaterial 12852794
     \<and> material (createCubie 3 1 2 2 2) ! 1 = MeshLambertMaterial 1118481
     \<and> material (createCubie 3 1 2 2 2) ! 2 = MeshPhongMaterial 16777215
     \<and> material (createCubie 3 1 2 2 2) ! 3 = MeshLambertMaterial 1118481
     \<and> material (createCubie 3 1 2 2 2) ! 4 = MeshPhongMaterial 20922
     \<and> material (createCubie 3 1 2 2 2) ! 5 = MeshLambertMaterial 1118481
     \<and> material (createCubie 3 1 0 0 0) ! 0 = MeshLambertMaterial 1118481
     \<and> material (createCubie 3 1 0 0 0) ! 1 = MeshPhongMaterial 16734208
     \<and> material (createCubie 3 1 0 0 0) ! 2 = MeshLambertMaterial 1118481
     \<and> material (createCubie 3 1 0 0 0) ! 3 = MeshPhongMaterial 16766208
     \<and> material (createCubie 3 1 0 0 0) ! 4 = MeshLambertMaterial 1118481
     \<and> material (createCubie 3 1 0 0 0) ! 5 = MeshPhongMaterial 40544"
proof -
  have h: "(2::nat) \<le> 3" by simp
  note t = createCube_surface_shell [OF h]
  note s = t [THEN conjunct2, THEN conjunct1]
  note mat = t [THEN conjunct2, THEN conjunct2, THEN conjunct2, THEN conjunct1]
  note col = t [THEN conjunct2, THEN conjunct2, THEN conjunct2, THEN conjunct2, THEN conjunct1]
  note blk = t [THEN conjunct2, THEN conjunct2, THEN conjunct2, THEN conjunct2, THEN conjunct2,
      THEN conjunct2, THEN conjunct1]
  have a: "(1, 0, 1) \<in> set (map gridPosition (cubies (RubiksCube 3)))"
    unfolding s by simp
  have b: "(1, 1, 1) \<notin> set (map gridPosition (cubies (RubiksCube 3)))"
    unfolding s by simp
  have m: "createCubie 3 1 2 2 2 \<in> set (cubies (RubiksCube 3))"
    using createCubie_mem [of 2 3 2 2 1] by (simp add: cubies_RubiksCube onSurface_def)
  have m0: "createCubie 3 1 0 0 0 \<in> set (cubies (RubiksCube 3))"
    using createCubie_mem [of 0 3 0 0 1] by (simp add: cubies_RubiksCube onSurface_def)
  have v: "canonicalColor 0 = 12852794" "canonicalColor 1 = 16734208" "canonicalColor 2 = 16777215"
    "canonicalColor 3 = 16766208" "canonicalColor 4 = 20922" "canonicalColor 5 = 40544"
    using arg_cong [OF col, of "\<lambda>xs. xs ! 0"] arg_cong [OF col, of "\<lambda>xs. xs ! 1"]
      arg_cong [OF col, of "\<lambda>xs. xs ! 2"] arg_cong [OF col, of "\<lambda>xs. xs ! 3"]
      arg_cong [OF col, of "\<lambda>xs. xs ! 4"] arg_cong [OF col, of "\<lambda>xs. xs ! 5"]
    by (simp_all add: numeral_2_eq_2)
  have f: "onFace 3 0 (createCubie 3 1 2 2 2)" "\<not> onFace 3 1 (createCubie 3 1 2 2 2)"
    "onFace 3 2 (createCubie 3 1 2 2 2)" "\<not> onFace 3 3 (createCubie 3 1 2 2 2)"
    "onFace 3 4 (createCubie 3 1 2 2 2)" "\<not> onFace 3 5 (createCubie 3 1 2 2 2)"
    "\<not> onFace 3 0 (createCubie 3 1 0 0 0)" "onFace 3 1 (createCubie 3 1 0 0 0)"
    "\<not> onFace 3 2 (createCubie 3 1 0 0 0)" "onFace 3 3 (createCubie 3 1 0 0 0)"
    "\<not> onFace 3 4 (createCubie 3 1 0 0 0)" "onFace 3 5 (createCubie 3 1 0 0 0)"
    by (simp_all add: onFace_def createCubie_sel)
  have lt: "(0::nat) < 6" "(1::nat) < 6" "(2::nat) < 6" "(3::nat) < 6" "(4::nat) < 6" "(5::nat) < 6"
    by simp_all
  note c = mat [THEN bspec, OF m, THEN spec, THEN mp]
  note c0 = mat [THEN bspec, OF m0, THEN spec, THEN mp]
  have c2: "material (createCubie 3 1 2 2 2) ! 0 = MeshPhongMaterial 12852794"
    "material (createCubie 3 1 2 2 2) ! 1 = MeshLambertMaterial 1118481"
    "material (createCubie 3 1 2 2 2) ! 2 = MeshPhongMaterial 16777215"
    "material (createCubie 3 1 2 2 2) ! 3 = MeshLambertMaterial 1118481"
    "material (createCubie 3 1 2 2 2) ! 4 = MeshPhongMaterial 20922"
    "material (createCubie 3 1 2 2 2) ! 5 = MeshLambertMaterial 1118481"
    by (simp_all only: c [OF lt(1)] c [OF lt(2)] c [OF lt(3)] c [OF lt(4)] c [OF lt(5)]
          c [OF lt(6)] f v blk if_True if_False)
  have c3: "material (createCubie 3 1 0 0 0) ! 0 = MeshLambertMaterial 1118481"
    "material (createCubie 3 1 0 0 0) ! 1 = MeshPhongMaterial 16734208"
    "material (createCubie 3 1 0 0 0) ! 2 = MeshLambertMaterial 1118481"
    "material (createCubie 3 1 0 0 0) ! 3 = MeshPhongMaterial 16766208"
    "material (createCubie 3 1 0 0 0) ! 4 = MeshLambertMaterial 1118481"
    "material (createCubie 3 1 0 0 0) ! 5 = MeshPhongMaterial 40544"
    by (simp_all only: c0 [OF lt(1)] c0 [OF lt(2)] c0 [OF lt(3)] c0 [OF lt(4)] c0 [OF lt(5)]
          c0 [OF lt(6)] f v blk if_True if_False)
  show ?thesis
    by (intro conjI h a b t [THEN conjunct1] m m0 c2 c3)
qed

section \<open>The quarter turn as a map over the pieces\<close>

lemma length_fold_update:
  "length (fold (\<lambda>i l. l[i := f (l ! i)]) sel l) = length l"
  by (induction sel arbitrary: l) simp_all

lemma nth_fold_update:
  assumes "distinct sel" "j < length l"
  shows "fold (\<lambda>i l. l[i := f (l ! i)]) sel l ! j = (if j \<in> set sel then f (l ! j) else l ! j)"
  using assms
proof (induction sel arbitrary: l)
  case Nil
  then show ?case by simp
next
  case (Cons a sel)
  then have a: "a \<notin> set sel" and d: "distinct sel" by simp_all
  have ne: "j \<in> set sel \<Longrightarrow> j \<noteq> a" using a by blast
  show ?case using Cons.IH [OF d, of "l[a := f (l ! a)]"] Cons.prems(2) ne
    by (auto simp: nth_list_update)
qed

lemma fold_update_filter:
  "fold (\<lambda>i l. l[i := f (l ! i)]) (filter (\<lambda>i. P (l ! i)) [0..<length l]) l
     = map (\<lambda>c. if P c then f c else c) l"
  by (rule nth_equalityI) (simp_all add: length_fold_update nth_fold_update)

lemma settleLayer_selected:
  "settleLayer n cs axis direction (filter (\<lambda>i. P (l ! i)) [0..<length l]) l
     = map (\<lambda>c. if P c then settleCubie n cs axis direction c else c) l"
  unfolding settleLayer_def by (rule fold_update_filter)

lemma beginTurn_sel:
  "sizeN (beginTurn g axis layer direction) = sizeN g"
  "cubeSize (beginTurn g axis layer direction) = cubeSize g"
  "cubies (beginTurn g axis layer direction) = cubies g"
  "isAnimating (beginTurn g axis layer direction) = True"
  "moveQueue (beginTurn g axis layer direction) = moveQueue g"
  "moves (beginTurn g axis layer direction) = moves g + 1"
  "isTimerRunning (beginTurn g axis layer direction) = (isTimerRunning g \<or> solved g)"
  "solved (beginTurn g axis layer direction) = (solved g \<and> isTimerRunning g)"
  "modalShown (beginTurn g axis layer direction) = modalShown g"
  "pending (beginTurn g axis layer direction) = Some (axis, direction, getCubiesInLayer g axis layer)"
  by (auto simp: beginTurn_def Let_def startTimer_def getCubiesInLayer_def)

lemma settleLayer_getCubiesInLayer:
  "settleLayer (sizeN g) (cubeSize g) axis direction (getCubiesInLayer g axis layer) (cubies g)
     = turnLayer g axis layer direction"
  unfolding getCubiesInLayer_def turnLayer_def by (rule settleLayer_selected)

lemma isSolved_cong: "sizeN g = sizeN g' \<Longrightarrow> cubies g = cubies g' \<Longrightarrow> isSolved g = isSolved g'"
  by (simp add: isSolved_def)

lemma rotateAnimated_sel:
  "sizeN (rotateAnimated g axis layer direction) = sizeN g"
  "cubeSize (rotateAnimated g axis layer direction) = cubeSize g"
  "cubies (rotateAnimated g axis layer direction) = cubies g"
  by (simp_all add: rotateAnimated_def beginTurn_sel)

lemma finishTurn_sel:
  assumes "pending g = Some (axis, direction, sel)"
  shows "sizeN (finishTurn g) = sizeN g"
    and "cubeSize (finishTurn g) = cubeSize g"
    and "cubies (finishTurn g) = settleLayer (sizeN g) (cubeSize g) axis direction sel (cubies g)"
  using assms
  by (simp_all add: finishTurn_def Let_def stopTimer_def rotateAnimated_sel split: list.split)

lemma finishTurn_idle:
  assumes "pending g = Some (axis, direction, sel)" "moveQueue g = []"
  shows "isAnimating (finishTurn g) = False"
    and "moveQueue (finishTurn g) = []"
    and "moves (finishTurn g) = moves g"
    and "pending (finishTurn g) = None"
    and "isTimerRunning (finishTurn g) = (isTimerRunning g \<and> \<not> isSolved (finishTurn g))"
    and "solved (finishTurn g) = (solved g \<or> isSolved (finishTurn g))"
    and "modalShown (finishTurn g) = (modalShown g \<or> isSolved (finishTurn g))"
  using assms
  by (simp_all add: finishTurn_def Let_def stopTimer_def isSolved_def)

lemma rotate_idle: "\<not> isAnimating g \<Longrightarrow> rotate g axis layer direction False = finishTurn (beginTurn g axis layer direction)"
  by (simp add: rotate_def)

lemma rotate_queued:
  "isAnimating g \<Longrightarrow> rotate g axis layer direction animate = g\<lparr>moveQueue := moveQueue g @ [(axis, layer, direction)]\<rparr>"
  by (simp add: rotate_def)

lemma rotate_animated: "rotate g axis layer direction True = rotateAnimated g axis layer direction"
  by (simp add: rotate_def rotateAnimated_def)

lemma rotate_sync_sel:
  assumes "\<not> isAnimating g"
  shows "sizeN (rotate g axis layer direction False) = sizeN g"
    and "cubeSize (rotate g axis layer direction False) = cubeSize g"
    and "cubies (rotate g axis layer direction False) = turnLayer g axis layer direction"
  using assms
  by (simp_all add: rotate_idle finishTurn_sel [OF beginTurn_sel(10)] beginTurn_sel
        settleLayer_getCubiesInLayer [symmetric] getCubiesInLayer_def)

lemma rotate_sync_idle:
  assumes "\<not> isAnimating g" "moveQueue g = []"
  shows "isAnimating (rotate g axis layer direction False) = False"
    and "moveQueue (rotate g axis layer direction False) = []"
    and "moves (rotate g axis layer direction False) = moves g + 1"
    and "pending (rotate g axis layer direction False) = None"
    and "isTimerRunning (rotate g axis layer direction False)
           = ((isTimerRunning g \<or> solved g) \<and> \<not> isSolved (rotate g axis layer direction False))"
    and "solved (rotate g axis layer direction False)
           = ((solved g \<and> isTimerRunning g) \<or> isSolved (rotate g axis layer direction False))"
    and "modalShown (rotate g axis layer direction False)
           = (modalShown g \<or> isSolved (rotate g axis layer direction False))"
  using assms
  by (simp_all add: rotate_idle finishTurn_idle [OF beginTurn_sel(10)] beginTurn_sel)


section \<open>Evaluation on small cubes\<close>

text \<open>The floor of a fraction of numerals, for the evaluation of \<open>Math.round\<close>.\<close>

lemma floor_rat_numeral_divide:
  "\<lfloor>numeral a / numeral b :: rat\<rfloor> = numeral a div numeral b"
  using floor_divide_of_int_eq [of "numeral a" "numeral b", where ?'a = rat] by simp

lemma floor_rat_one_divide:
  "\<lfloor>1 / numeral b :: rat\<rfloor> = 1 div numeral b"
  using floor_divide_of_int_eq [of 1 "numeral b", where ?'a = rat] by simp

lemma floor_rat_minus_numeral_divide:
  "\<lfloor>- (numeral a / numeral b) :: rat\<rfloor> = - numeral a div numeral b"
  using floor_divide_of_int_eq [of "- numeral a" "numeral b", where ?'a = rat] by simp

lemma floor_rat_minus_one_divide:
  "\<lfloor>- (1 / numeral b) :: rat\<rfloor> = - 1 div numeral b"
  using floor_divide_of_int_eq [of "- 1" "numeral b", where ?'a = rat] by simp

lemmas floor_rat = floor_rat_numeral_divide floor_rat_one_divide floor_rat_minus_numeral_divide
  floor_rat_minus_one_divide

lemma createCube3_nth: "createCube 3 1 ! 25 = createCubie 3 1 2 2 2"
  by (simp add: createCube_def onSurface_def upt_rec)

lemma createCube3_length: "length (createCube 3 1) = 26"
  by (simp add: createCube_def onSurface_def upt_rec)

lemmas eval_settle = settleCubie_def updateCubiePosition_def getWorldPosition_def createCubie_sel vec_def Let_def
     cosQuarter_def sinQuarter_def Math_round_def floor_rat inLayer_def

lemma corner3_settled_position: "gridPosition (settleCubie 3 1 ''y'' 1 (createCubie 3 1 2 2 2)) = (2, 2, 0)"
  by (simp add: eval_settle gridPosition_def)

lemma corner3_in_layer: "inLayer 3 1 ''y'' 2 (createCubie 3 1 2 2 2)"
  by (simp add: eval_settle)


section \<open>What a turn leaves untouched\<close>

lemma settleCubie_keeps:
  "quaternion (settleCubie n cs axis direction c) = quaternion c"
  "material (settleCubie n cs axis direction c) = material c"
  by (simp_all add: settleCubie_def updateCubiePosition_def Let_def)

lemma map_fold_update_keeps:
  assumes "\<And>c. h (f c) = h c"
  shows "map h (fold (\<lambda>i l. l[i := f (l ! i)]) sel l) = map h l"
proof (induction sel arbitrary: l)
  case Nil
  show ?case by simp
next
  case (Cons a sel)
  have "map h (l[a := f (l ! a)]) = map h l"
  proof (cases "a < length l")
    case True
    then show ?thesis by (simp add: map_update assms list_update_same_conv)
  next
    case False
    then show ?thesis by (simp add: list_update_beyond)
  qed
  with Cons.IH [of "l[a := f (l ! a)]"] show ?case by simp
qed

lemma settleLayer_keeps:
  "map quaternion (settleLayer n cs axis direction sel l) = map quaternion l"
  "map material (settleLayer n cs axis direction sel l) = map material l"
  unfolding settleLayer_def
  by (rule map_fold_update_keeps, simp add: settleCubie_keeps)+

lemma finishTurn_cubies:
  "cubies (finishTurn g) =
     (case pending g of None \<Rightarrow> cubies g
      | Some (axis, direction, sel) \<Rightarrow> settleLayer (sizeN g) (cubeSize g) axis direction sel (cubies g))"
  by (simp add: finishTurn_def Let_def stopTimer_def rotateAnimated_sel split: option.split list.split)

lemma finishTurn_size:
  "sizeN (finishTurn g) = sizeN g" "cubeSize (finishTurn g) = cubeSize g"
  by (simp_all add: finishTurn_def Let_def stopTimer_def rotateAnimated_sel split: option.split list.split)

lemma finishTurn_keeps:
  "map quaternion (cubies (finishTurn g)) = map quaternion (cubies g)"
  "map material (cubies (finishTurn g)) = map material (cubies g)"
  by (simp_all add: finishTurn_cubies settleLayer_keeps split: option.split)

lemma rotate_size:
  "sizeN (rotate g axis layer direction animate) = sizeN g"
  "cubeSize (rotate g axis layer direction animate) = cubeSize g"
  by (simp_all add: rotate_def Let_def finishTurn_size beginTurn_sel)

lemma rotate_keeps:
  "map quaternion (cubies (rotate g axis layer direction animate)) = map quaternion (cubies g)"
  "map material (cubies (rotate g axis layer direction animate)) = map material (cubies g)"
  by (simp_all add: rotate_def Let_def finishTurn_keeps beginTurn_sel)

lemma scrambleLoop_keeps:
  "sizeN (fst (scrambleLoop rnd i k (g, calls))) = sizeN g
   \<and> cubeSize (fst (scrambleLoop rnd i k (g, calls))) = cubeSize g
   \<and> map quaternion (cubies (fst (scrambleLoop rnd i k (g, calls)))) = map quaternion (cubies g)
   \<and> map material (cubies (fst (scrambleLoop rnd i k (g, calls)))) = map material (cubies g)"
  by (induction k arbitrary: i g calls) (simp_all add: Let_def rotate_size rotate_keeps)

lemma scramble_keeps:
  "sizeN (fst (scramble g movesArg rnd)) = sizeN g"
  "cubeSize (fst (scramble g movesArg rnd)) = cubeSize g"
  "map quaternion (cubies (fst (scramble g movesArg rnd))) = map quaternion (cubies g)"
  "map material (cubies (fst (scramble g movesArg rnd))) = map material (cubies g)"
  by (simp_all add: scramble_def Let_def scrambleLoop_keeps)




lemma reset_sel:
  "sizeN (reset g) = sizeN g"
  "cubeSize (reset g) = cubeSize g"
  "cubies (reset g) = createCube (sizeN g) (cubeSize g)"
  by (simp_all add: reset_def stopTimer_def)



section \<open>A new cube, and cubes that are not solved\<close>

lemma RubiksCube_sel:
  "sizeN (RubiksCube n) = n"
  "cubeSize (RubiksCube n) = (if n > 10 then 10 / of_nat n else 1)"
  "isAnimating (RubiksCube n) = False"
  "moveQueue (RubiksCube n) = []"
  "moves (RubiksCube n) = 0"
  "isTimerRunning (RubiksCube n) = False"
  "solved (RubiksCube n) = True"
  "modalShown (RubiksCube n) = False"
  "pending (RubiksCube n) = None"
  by (simp_all add: RubiksCube_def Let_def)

lemma cubies_RubiksCube3: "cubies (RubiksCube 3) = createCube 3 1"
  by (simp add: cubies_RubiksCube)

lemma applyQuaternion_identity: "applyQuaternion v identityQuaternion = v"
  by (simp add: applyQuaternion_def identityQuaternion_def)

lemma bestIndex_localNormal: "k < 6 \<Longrightarrow> bestIndex (localNormal k) = k"
proof -
  assume "k < 6"
  then consider "k = 0" | "k = 1" | "k = 2" | "k = 3" | "k = 4" | "k = 5" by linarith
  then show ?thesis
    by cases (simp_all add: bestIndex_def localNormal_def axesTable_def bestStep_def dot_def vec_def)
qed

lemma getFaceColor_identity:
  "quaternion c = identityQuaternion \<Longrightarrow> k < 6 \<Longrightarrow> getFaceColor c k = getHex (material c ! k)"
  by (simp add: getFaceColor_def applyQuaternion_identity bestIndex_localNormal)

lemma uniformFace_iff: "uniformFace face \<longleftrightarrow> (\<forall>a \<in> set face. \<forall>b \<in> set face. a = b)"
proof (cases face)
  case Nil
  then show ?thesis by (simp add: uniformFace_def)
next
  case (Cons a list)
  have "uniformFace face \<longleftrightarrow> (\<forall>c \<in> set face. c = a)"
    by (simp only: Cons uniformFace_def list.case list_all_iff)
  moreover have "a \<in> set face" by (simp add: Cons)
  ultimately show ?thesis by auto
qed

lemma not_solved_by_two:
  assumes "k < 6" "c1 \<in> set (cubies g)" "c2 \<in> set (cubies g)"
    and "onFace (sizeN g) k c1" "onFace (sizeN g) k c2"
    and "getFaceColor c1 k \<noteq> getFaceColor c2 k"
  shows "\<not> isSolved g"
proof -
  have "getFaceColor c1 k \<in> set (faceList (sizeN g) (cubies g) k)"
       "getFaceColor c2 k \<in> set (faceList (sizeN g) (cubies g) k)"
    using assms by (auto simp: faceList_def)
  then have "\<not> uniformFace (faceList (sizeN g) (cubies g) k)"
    using assms(6) unfolding uniformFace_iff by blast
  then show ?thesis using assms(1) by (auto simp: isSolved_def list_all_iff)
qed

lemma turn_x0_not_solved: "\<not> isSolved (rotate (RubiksCube 3) ''x'' 0 1 False)"
proof -
  let ?g = "rotate (RubiksCube 3) ''x'' 0 1 False"
  let ?c1 = "createCubie 3 1 0 1 0" and ?c2 = "createCubie 3 1 2 2 2"
  have cub: "cubies ?g = turnLayer (RubiksCube 3) ''x'' 0 1"
    by (simp add: rotate_sync_sel RubiksCube_sel)
  have "?c1 \<in> set (createCube 3 1)" "?c2 \<in> set (createCube 3 1)"
    using createCubie_mem [of 0 3 1 0 1] createCubie_mem [of 2 3 2 2 1]
    by (simp_all add: onSurface_def)
  then have m1: "settleCubie 3 1 ''x'' 1 ?c1 \<in> set (cubies ?g)" and m2: "?c2 \<in> set (cubies ?g)"
    unfolding cub turnLayer_def
    by (force simp: RubiksCube_sel cubies_RubiksCube3 eval_settle)+
  have q: "quaternion (settleCubie 3 1 ''x'' 1 ?c1) = identityQuaternion" "quaternion ?c2 = identityQuaternion"
    by (simp_all add: settleCubie_keeps createCubie_sel)
  have f: "onFace 3 2 (settleCubie 3 1 ''x'' 1 ?c1)" "onFace 3 2 ?c2"
    by (simp_all add: onFace_def eval_settle)
  have c: "getFaceColor (settleCubie 3 1 ''x'' 1 ?c1) 2 \<noteq> getFaceColor ?c2 2"
    by (simp add: getFaceColor_identity q settleCubie_keeps createCubie_sel black_def white_def)
  show ?thesis
    by (rule not_solved_by_two [OF _ m1 m2 _ _ c]) (simp_all add: rotate_size RubiksCube_sel f)
qed


section \<open>Orientation of the pieces\<close>

text \<open>
  Claim C1 says that a quarter turn composes the orientation of every piece of the
  layer with a rotation of 90 degrees times \<open>direction\<close> about \<open>axis\<close>. \<open>rotate\<close> copies
  the world position of each piece and recomputes its grid position, but never writes
  its quaternion. On a new cube of size 3 the turn \<open>rotate('y', 2, 1, false)\<close> selects
  the corner piece with index 25, created at \<open>(2, 2, 2)\<close>, and moves it to \<open>(2, 2, 0)\<close>;
  its quaternion is the identity afterwards, as it was before.
\<close>
theorem rotate_leaves_quaternion:
  "25 \<in> set (getCubiesInLayer (RubiksCube 3) ''y'' 2)
     \<and> gridPosition (cubies (RubiksCube 3) ! 25) = (2, 2, 2)
     \<and> gridPosition (cubies (rotate (RubiksCube 3) ''y'' 2 1 False) ! 25) = (2, 2, 0)
     \<and> quaternion (cubies (rotate (RubiksCube 3) ''y'' 2 1 False) ! 25) = identityQuaternion"
proof -
  have a: "25 \<in> set (getCubiesInLayer (RubiksCube 3) ''y'' 2)"
    by (simp add: getCubiesInLayer_def RubiksCube_sel cubies_RubiksCube3 createCube3_length createCube3_nth corner3_in_layer)
  have b: "gridPosition (cubies (RubiksCube 3) ! 25) = (2, 2, 2)"
    by (simp add: cubies_RubiksCube3 createCube3_nth gridPosition_createCubie)
  have n: "cubies (rotate (RubiksCube 3) ''y'' 2 1 False) ! 25 = settleCubie 3 1 ''y'' 1 (createCubie 3 1 2 2 2)"
    by (simp add: rotate_sync_sel RubiksCube_sel turnLayer_def cubies_RubiksCube3 createCube3_length createCube3_nth corner3_in_layer)
  show ?thesis
    by (simp add: a b n corner3_settled_position settleCubie_keeps createCubie_sel)
qed

section \<open>Invalid arguments\<close>

text \<open>
  Claim C9 says that \<open>rotate\<close> rejects a layer index outside \<open>[0, N - 1]\<close> or an
  unrecognized axis without changing any state. \<open>rotate\<close> has no check of its
  arguments: on a new cube of size 3 the move counter is 1 after \<open>rotate('x', 5, 1, false)\<close>
  and after \<open>rotate('w', 0, 1, false)\<close>.
\<close>

theorem rotate_invalid_counterexample:
  "moves (RubiksCube 3) = 0
     \<and> moves (rotate (RubiksCube 3) ''x'' 5 1 False) = 1
     \<and> moves (rotate (RubiksCube 3) ''w'' 0 1 False) = 1"
  by (simp add: rotate_sync_idle RubiksCube_sel)


lemma grid_tolerance:
  fixes cs off :: rat
  assumes "1 / 100 \<le> cs"
  shows "\<bar>(of_int a - off) * cs - (of_int l - off) * cs\<bar> < 1 / 100 \<longleftrightarrow> a = l"
proof
  assume h: "\<bar>(of_int a - off) * cs - (of_int l - off) * cs\<bar> < 1 / 100"
  show "a = l"
  proof (rule ccontr)
    assume "a \<noteq> l"
    then have "1 \<le> \<bar>a - l\<bar>" by linarith
    then have "of_int 1 \<le> (of_int \<bar>a - l\<bar> :: rat)" by (simp only: of_int_le_iff)
    then have k: "(1::rat) \<le> \<bar>of_int (a - l)\<bar>" by simp
    have pos: "0 \<le> cs" using assms by linarith
    have "1 * cs \<le> \<bar>of_int (a - l)\<bar> * cs"
      by (rule mult_right_mono [OF k pos])
    then have "cs \<le> \<bar>of_int (a - l) * cs\<bar>"
      using pos by (simp add: abs_mult)
    moreover have "(of_int a - off) * cs - (of_int l - off) * cs = of_int (a - l) * cs"
      by (simp add: algebra_simps)
    ultimately show False using h assms by linarith
  qed
next
  assume "a = l"
  then show "\<bar>(of_int a - off) * cs - (of_int l - off) * cs\<bar> < 1 / 100" by simp
qed

lemma grid_tolerance_scaled:
  fixes cs off :: rat
  assumes "1 / 100 \<le> cs"
  shows "\<bar>(of_int a - off) * cs - (of_int l - off) * cs\<bar> * 100 < 1 \<longleftrightarrow> a = l"
  using grid_tolerance [OF assms, of a off l] by simp

lemma inLayer_atRest:
  assumes "cubieAtRest n cs c" "1 / 100 \<le> cs" "axis \<in> {''x'', ''y'', ''z''}"
  shows "inLayer n cs axis layer c \<longleftrightarrow> layerCoordinate axis c = layer"
proof -
  note t = grid_tolerance_scaled [OF assms(2), of _ "(of_nat n - 1) / 2" layer]
  from assms(3) consider "axis = ''x''" | "axis = ''y''" | "axis = ''z''" by blast
  then show ?thesis
    using assms(1)
    by cases (simp_all add: inLayer_def cubieAtRest_def layerCoordinate_def vec_def Let_def t)
qed

lemma inLayer_other_axis:
  "axis \<notin> {''x'', ''y'', ''z''} \<Longrightarrow> \<not> inLayer n cs axis layer c"
  by (simp add: inLayer_def Let_def)


lemma cubieAtRest_createCubie:
  "0 \<le> x \<Longrightarrow> x < int n \<Longrightarrow> 0 \<le> y \<Longrightarrow> y < int n \<Longrightarrow> 0 \<le> z \<Longrightarrow> z < int n
     \<Longrightarrow> cubieAtRest n cs (createCubie n cs x y z)"
  by (simp add: cubieAtRest_def createCubie_sel)

lemma atRest_createCube: "list_all (cubieAtRest n cs) (createCube n cs)"
  unfolding list_all_iff set_createCube
  by (auto intro!: cubieAtRest_createCubie)

lemma atRest_RubiksCube: "atRest (RubiksCube n)"
  unfolding atRest_def RubiksCube_sel cubies_RubiksCube
  by (rule atRest_createCube)

lemma atRest_reset: "atRest (reset g)"
  unfolding atRest_def reset_sel
  by (rule atRest_createCube)

lemma turnLayer_none:
  "(\<And>c. c \<in> set (cubies g) \<Longrightarrow> \<not> inLayer (sizeN g) (cubeSize g) axis layer c)
     \<Longrightarrow> turnLayer g axis layer direction = cubies g"
  by (simp add: turnLayer_def map_idI)

lemma not_inLayer_out_of_range:
  assumes "cubieAtRest n cs c" "1 / 100 \<le> cs" "layer < 0 \<or> int n \<le> layer"
  shows "\<not> inLayer n cs axis layer c"
proof (cases "axis \<in> {''x'', ''y'', ''z''}")
  case True
  have "layerCoordinate axis c \<noteq> layer"
    using assms(1,3) by (auto simp: cubieAtRest_def layerCoordinate_def)
  then show ?thesis by (simp add: inLayer_atRest [OF assms(1,2) True])
next
  case False
  then show ?thesis by (rule inLayer_other_axis)
qed

text \<open>
  Claim C9, as the code has it. A call of \<open>rotate\<close> while no turn is in progress, with
  an axis other than \<open>x\<close>, \<open>y\<close>, \<open>z\<close>, or with a layer index outside \<open>[0, N - 1]\<close> on a cube
  at rest on its grid whose \<open>cubeSize\<close> is at least 0.01, changes no piece, but it is
  carried out as a turn: the move counter goes up by one.
\<close>

theorem rotate_invalid_is_a_turn:
  assumes "\<not> isAnimating g" and "moveQueue g = []"
    and "axis \<notin> {''x'', ''y'', ''z''}
         \<or> ((layer < 0 \<or> int (sizeN g) \<le> layer) \<and> atRest g \<and> 1 / 100 \<le> cubeSize g)"
  shows "cubies (rotate g axis layer direction animate) = cubies g
       \<and> moves (rotate g axis layer direction animate) = moves g + 1"
proof -
  have none: "\<not> inLayer (sizeN g) (cubeSize g) axis layer c" if "c \<in> set (cubies g)" for c
    using assms(3)
  proof
    assume "axis \<notin> {''x'', ''y'', ''z''}"
    then show ?thesis by (rule inLayer_other_axis)
  next
    assume h: "(layer < 0 \<or> int (sizeN g) \<le> layer) \<and> atRest g \<and> 1 / 100 \<le> cubeSize g"
    then have "cubieAtRest (sizeN g) (cubeSize g) c"
      using that by (simp add: atRest_def list_all_iff)
    then show ?thesis using h by (intro not_inLayer_out_of_range) simp_all
  qed
  show ?thesis
  proof (cases animate)
    case True
    then show ?thesis
      using assms(1) by (simp add: rotate_animated rotateAnimated_def beginTurn_sel)
  next
    case False
    then show ?thesis
      using assms(1,2) none by (simp add: rotate_sync_sel rotate_sync_idle turnLayer_none)
  qed
qed

text \<open>The theorem at \<open>rotate('x', 5, 1, false)\<close> on a new cube of size 3.\<close>

theorem rotate_invalid_is_a_turn_witness:
  "\<not> isAnimating (RubiksCube 3) \<and> moveQueue (RubiksCube 3) = []
     \<and> int (sizeN (RubiksCube 3)) \<le> 5 \<and> atRest (RubiksCube 3) \<and> 1 / 100 \<le> cubeSize (RubiksCube 3)
     \<and> cubies (rotate (RubiksCube 3) ''x'' 5 1 False) = cubies (RubiksCube 3)
     \<and> moves (rotate (RubiksCube 3) ''x'' 5 1 False) = 1"
proof -
  have h: "\<not> isAnimating (RubiksCube 3)" "moveQueue (RubiksCube 3) = []"
    "int (sizeN (RubiksCube 3)) \<le> 5" "1 / 100 \<le> cubeSize (RubiksCube 3)"
    by (simp_all add: RubiksCube_sel)
  show ?thesis
    using rotate_invalid_is_a_turn [of "RubiksCube 3" "''x''" 5 1 False] h atRest_RubiksCube [of 3]
    by (simp add: RubiksCube_sel)
qed

section \<open>Selection of the layer\<close>

text \<open>
  Claim C2, as the code has it. For an axis \<open>x\<close>, \<open>y\<close> or \<open>z\<close>, \<open>getCubiesInLayer\<close> selects
  the pieces whose position component along the axis is within 0.01 of
  \<open>(layerIndex - (N - 1) / 2) * cubeSize\<close>. On a cube at rest on its grid whose \<open>cubeSize\<close>
  is at least 0.01, these are exactly the pieces whose grid position component along
  the axis equals \<open>layerIndex\<close>.
\<close>

theorem getCubiesInLayer_selection:
  assumes "axis \<in> {''x'', ''y'', ''z''}"
  shows "set (getCubiesInLayer g axis layer) =
           {i. i < length (cubies g)
               \<and> \<bar>positionCoordinate axis (position (cubies g ! i))
                    - (of_int layer - (of_nat (sizeN g) - 1) / 2) * cubeSize g\<bar> < 1 / 100}
       \<and> (atRest g \<and> 1 / 100 \<le> cubeSize g \<longrightarrow>
            set (getCubiesInLayer g axis layer) =
              {i. i < length (cubies g) \<and> layerCoordinate axis (cubies g ! i) = layer})"
proof
  from assms consider "axis = ''x''" | "axis = ''y''" | "axis = ''z''" by blast
  then show "set (getCubiesInLayer g axis layer) =
           {i. i < length (cubies g)
               \<and> \<bar>positionCoordinate axis (position (cubies g ! i))
                    - (of_int layer - (of_nat (sizeN g) - 1) / 2) * cubeSize g\<bar> < 1 / 100}"
    by cases (auto simp: getCubiesInLayer_def inLayer_def positionCoordinate_def Let_def)
  show "atRest g \<and> 1 / 100 \<le> cubeSize g \<longrightarrow>
            set (getCubiesInLayer g axis layer) =
              {i. i < length (cubies g) \<and> layerCoordinate axis (cubies g ! i) = layer}"
  proof
    assume h: "atRest g \<and> 1 / 100 \<le> cubeSize g"
    then have "inLayer (sizeN g) (cubeSize g) axis layer (cubies g ! i)
                 \<longleftrightarrow> layerCoordinate axis (cubies g ! i) = layer" if "i < length (cubies g)" for i
      using that assms by (intro inLayer_atRest) (simp_all add: atRest_def list_all_length)
    then show "set (getCubiesInLayer g axis layer) =
              {i. i < length (cubies g) \<and> layerCoordinate axis (cubies g ! i) = layer}"
      by (auto simp: getCubiesInLayer_def)
  qed
qed

lemma createCube4: "createCube 4 1 ! 8 = createCubie 4 1 0 2 0" "length (createCube 4 1) = 56"
  by (simp_all add: createCube_def onSurface_def upt_rec)

lemma edge4_in_layer: "inLayer 4 1 ''y'' 2 (createCubie 4 1 0 2 0)"
  by (simp add: eval_settle)

lemma edge4_settled_coordinate: "layerCoordinate ''y'' (settleCubie 4 1 ''y'' 1 (createCubie 4 1 0 2 0)) = 3"
  by (simp add: eval_settle layerCoordinate_def)

lemma edge4_settled_not_in_layer: "\<not> inLayer 4 1 ''y'' 3 (settleCubie 4 1 ''y'' 1 (createCubie 4 1 0 2 0))"
  by (simp add: eval_settle)

text \<open>
  Claim C2 says that the pieces selected are exactly those whose grid position
  component along the axis equals \<open>layerIndex\<close>, by integer equality and not by a
  tolerance test on positions. On a cube of size 4, after \<open>rotate('y', 2, 1, false)\<close>
  the piece with index 8 has grid position component 3 along \<open>y\<close>, and
  \<open>getCubiesInLayer('y', 3)\<close> does not select it.
\<close>

theorem getCubiesInLayer_counterexample:
  "set (getCubiesInLayer (rotate (RubiksCube 4) ''y'' 2 1 False) ''y'' 3) \<noteq>
     {i. i < length (cubies (rotate (RubiksCube 4) ''y'' 2 1 False))
         \<and> layerCoordinate ''y'' (cubies (rotate (RubiksCube 4) ''y'' 2 1 False) ! i) = 3}"
proof -
  let ?g = "rotate (RubiksCube 4) ''y'' 2 1 False"
  have c4: "cubies (RubiksCube 4) = createCube 4 1" by (simp add: cubies_RubiksCube)
  have len: "length (cubies ?g) = 56"
    by (simp add: rotate_sync_sel RubiksCube_sel turnLayer_def c4 createCube4)
  have n: "cubies ?g ! 8 = settleCubie 4 1 ''y'' 1 (createCubie 4 1 0 2 0)"
    by (simp add: rotate_sync_sel RubiksCube_sel turnLayer_def c4 createCube4 edge4_in_layer)
  have a: "8 \<in> {i. i < length (cubies ?g) \<and> layerCoordinate ''y'' (cubies ?g ! i) = 3}"
    by (simp add: len n edge4_settled_coordinate)
  have b: "8 \<notin> set (getCubiesInLayer ?g ''y'' 3)"
    by (simp add: getCubiesInLayer_def n edge4_settled_not_in_layer rotate_size RubiksCube_sel)
  from a b show ?thesis by blast
qed

text \<open>The theorem at layer 2 of axis \<open>y\<close> on a new cube of size 3.\<close>

theorem getCubiesInLayer_selection_witness:
  "''y'' \<in> {''x'', ''y'', ''z''} \<and> atRest (RubiksCube 3) \<and> 1 / 100 \<le> cubeSize (RubiksCube 3)
     \<and> 25 \<in> set (getCubiesInLayer (RubiksCube 3) ''y'' 2)
     \<and> set (getCubiesInLayer (RubiksCube 3) ''y'' 2) =
           {i. i < length (cubies (RubiksCube 3)) \<and> layerCoordinate ''y'' (cubies (RubiksCube 3) ! i) = 2}"
proof -
  have h: "''y'' \<in> {''x'', ''y'', ''z''}" by simp
  have r: "atRest (RubiksCube 3)" by (rule atRest_RubiksCube)
  have c: "1 / 100 \<le> cubeSize (RubiksCube 3)" by (simp add: RubiksCube_sel)
  note t = getCubiesInLayer_selection [OF h, of "RubiksCube 3" 2, THEN conjunct2, rule_format, OF conjI [OF r c]]
  have m: "25 \<in> set (getCubiesInLayer (RubiksCube 3) ''y'' 2)"
    unfolding t by (simp add: cubies_RubiksCube3 createCube3_length createCube3_nth layerCoordinate_def createCubie_sel)
  show ?thesis by (intro conjI h r c m t)
qed


section \<open>The timer\<close>

lemma pick_zero: "pickAxis 0 = ''x''" "pickDirection 0 = 1"
  by (simp_all add: pickAxis_def pickDirection_def)

lemma scramble_one:
  "fst (scramble g (Some 1) (\<lambda>j n. 0)) = (rotate g ''x'' 0 1 False)\<lparr>solved := False, moves := 0\<rparr>"
  by (simp add: scramble_def pick_zero Let_def)

text \<open>
  Claim C10 says that the turns which \<open>scramble\<close> issues on a solved puzzle do not
  start the timer. \<open>scramble\<close> calls \<open>rotate\<close>, and \<open>rotate\<close> starts the timer whoever
  calls it: on a new cube of size 3, whose timer is not running, the timer runs after
  \<open>scramble(1)\<close> with the three draws 0: the axis \<open>x\<close>, the layer 0, the direction 1.
\<close>

theorem scramble_starts_timer_counterexample:
  "\<not> isTimerRunning (RubiksCube 3) \<and> solved (RubiksCube 3)
     \<and> isTimerRunning (fst (scramble (RubiksCube 3) (Some 1) (\<lambda>j n. 0)))"
  by (subst scramble_one) (simp add: rotate_sync_idle RubiksCube_sel turn_x0_not_solved)

text \<open>
  Claim C10, as the code has it. A call of \<open>rotate\<close> that begins a turn, be it a
  player's (animated) or one that \<open>scramble\<close> issues (not animated), leaves the timer
  running if it ran before and starts it if the solved flag was set; the end of the
  turn stops the timer when the solved check succeeds.
\<close>

theorem timer_started_by_any_turn:
  assumes "\<not> isAnimating g" and "moveQueue g = []"
  shows "isTimerRunning (rotate g axis layer direction True) = (isTimerRunning g \<or> solved g)
       \<and> isTimerRunning (rotate g axis layer direction False)
           = ((isTimerRunning g \<or> solved g) \<and> \<not> isSolved (rotate g axis layer direction False))
       \<and> isTimerRunning (finishTurn (rotate g axis layer direction True))
           = ((isTimerRunning g \<or> solved g) \<and> \<not> isSolved (finishTurn (rotate g axis layer direction True)))"
proof -
  have a: "rotate g axis layer direction True = beginTurn g axis layer direction"
    using assms(1) by (simp add: rotate_def)
  have p: "pending (beginTurn g axis layer direction) = Some (axis, direction, getCubiesInLayer g axis layer)"
    by (rule beginTurn_sel)
  have q: "moveQueue (beginTurn g axis layer direction) = []"
    using assms(2) by (simp add: beginTurn_sel)
  show ?thesis
    using assms
    by (simp add: a beginTurn_sel rotate_sync_idle finishTurn_idle [OF p q])
qed

text \<open>The theorem at the first turn on a new cube of size 3, animated and not.\<close>

theorem timer_started_by_any_turn_witness:
  "\<not> isAnimating (RubiksCube 3) \<and> moveQueue (RubiksCube 3) = []
     \<and> isTimerRunning (rotate (RubiksCube 3) ''x'' 0 1 True)
     \<and> isTimerRunning (rotate (RubiksCube 3) ''x'' 0 1 False)"
  using timer_started_by_any_turn [of "RubiksCube 3" "''x''" 0 1] turn_x0_not_solved
  by (simp add: RubiksCube_sel)


section \<open>scramble and its calls of rotate\<close>

lemma applyCall_size: "sizeN (applyCall g c) = sizeN g"
  by (simp add: applyCall_def rotate_size)

lemma scrambleLoop_unfold:
  "scrambleLoop rnd i k (g, calls) =
     (foldl applyCall g (map (loggedCall (sizeN g) rnd) [i..<i + k]),
      calls @ map (loggedCall (sizeN g) rnd) [i..<i + k])"
proof (induction k arbitrary: i g calls)
  case 0
  show ?case by simp
next
  case (Suc k)
  have u: "[i..<i + Suc k] = i # [Suc i..<Suc i + k]"
    by (simp add: upt_rec)
  show ?case
    unfolding u
    by (simp add: Suc.IH Let_def rotate_size loggedCall_def applyCall_def)
qed

lemma loggedCall_valid:
  assumes "\<forall>j m. 0 < m \<longrightarrow> 0 \<le> rnd j m \<and> rnd j m < int m" "0 < n"
  shows "fst (loggedCall n rnd i) \<in> {''x'', ''y'', ''z''}
       \<and> 0 \<le> fst (snd (loggedCall n rnd i)) \<and> fst (snd (loggedCall n rnd i)) < int n
       \<and> fst (snd (snd (loggedCall n rnd i))) \<in> {1, - 1}
       \<and> \<not> snd (snd (snd (loggedCall n rnd i)))"
proof -
  have a: "0 \<le> rnd (3 * i) 3" "rnd (3 * i) 3 < 3" "0 \<le> rnd (3 * i + 1) n" "rnd (3 * i + 1) n < int n"
    "0 \<le> rnd (3 * i + 2) 2" "rnd (3 * i + 2) 2 < 2"
    using assms(1) [rule_format, of 3 "3 * i"] assms(1) [rule_format, of n "3 * i + 1"]
      assms(1) [rule_format, of 2 "3 * i + 2"] assms(2)
    by simp_all
  have x: "pickAxis (rnd (3 * i) 3) \<in> {''x'', ''y'', ''z''}"
    using a(1,2) unfolding pickAxis_def by auto
  have d: "pickDirection (rnd (3 * i + 2) 2) \<in> {1, - 1}"
    using a(5,6) unfolding pickDirection_def by auto
  show ?thesis
    using x d a(3,4) by (simp add: loggedCall_def)
qed


lemma foldl_applyCall_idle:
  "\<not> isAnimating g \<Longrightarrow> moveQueue g = [] \<Longrightarrow>
     \<not> isAnimating (foldl applyCall g (map (loggedCall n rnd) xs))
     \<and> moveQueue (foldl applyCall g (map (loggedCall n rnd) xs)) = []"
proof (induction xs arbitrary: g)
  case Nil
  then show ?case by simp
next
  case (Cons a xs)
  have "\<not> isAnimating (applyCall g (loggedCall n rnd a))"
       "moveQueue (applyCall g (loggedCall n rnd a)) = []"
    using Cons.prems by (simp_all add: applyCall_def loggedCall_def rotate_sync_idle)
  then show ?case using Cons.IH by simp
qed

lemma scramble_idle:
  assumes "\<not> isAnimating g" "moveQueue g = []"
  shows "\<not> isAnimating (fst (scramble g movesArg rnd)) \<and> moveQueue (fst (scramble g movesArg rnd)) = []"
  using foldl_applyCall_idle [OF assms]
  by (simp add: scramble_def Let_def scrambleLoop_unfold)

lemma scramble_idle_start:
  assumes "\<forall>j m. 0 < m \<longrightarrow> 0 \<le> rnd j m \<and> rnd j m < int m" and "0 < sizeN g"
  shows "snd (scramble g None rnd) = map (loggedCall (sizeN g) rnd) [0..<max 20 (sizeN g * 5)]
       \<and> length (snd (scramble g None rnd)) = max 20 (sizeN g * 5)
       \<and> (\<forall>c \<in> set (snd (scramble g None rnd)).
             fst c \<in> {''x'', ''y'', ''z''}
             \<and> 0 \<le> fst (snd c) \<and> fst (snd c) < int (sizeN g)
             \<and> fst (snd (snd c)) \<in> {1, - 1}
             \<and> \<not> snd (snd (snd c)))
       \<and> fst (scramble g None rnd)
           = (foldl applyCall g (snd (scramble g None rnd)))\<lparr>solved := False, moves := 0\<rparr>
       \<and> moves (fst (scramble g None rnd)) = 0
       \<and> \<not> solved (fst (scramble g None rnd))
       \<and> (\<not> isAnimating g \<and> moveQueue g = [] \<longrightarrow>
             \<not> isAnimating (fst (scramble g None rnd)) \<and> moveQueue (fst (scramble g None rnd)) = [])"
proof -
  let ?k = "max 20 (sizeN g * 5)"
  have s: "scramble g None rnd =
      ((foldl applyCall g (map (loggedCall (sizeN g) rnd) [0..<?k]))\<lparr>solved := False, moves := 0\<rparr>,
       map (loggedCall (sizeN g) rnd) [0..<?k])"
    by (simp add: scramble_def Let_def scrambleLoop_unfold)
  have 1: "snd (scramble g None rnd) = map (loggedCall (sizeN g) rnd) [0..<?k]"
    by (simp add: s)
  have 2: "length (snd (scramble g None rnd)) = ?k"
    by (simp add: s)
  have 3: "\<forall>c \<in> set (snd (scramble g None rnd)).
             fst c \<in> {''x'', ''y'', ''z''}
             \<and> 0 \<le> fst (snd c) \<and> fst (snd c) < int (sizeN g)
             \<and> fst (snd (snd c)) \<in> {1, - 1}
             \<and> \<not> snd (snd (snd c))"
    unfolding 1 using loggedCall_valid [OF assms] by (simp only: set_map ball_simps) blast
  have 4: "fst (scramble g None rnd)
           = (foldl applyCall g (snd (scramble g None rnd)))\<lparr>solved := False, moves := 0\<rparr>"
    by (simp add: s)
  have 5: "moves (fst (scramble g None rnd)) = 0" "\<not> solved (fst (scramble g None rnd))"
    by (simp_all add: s)
  have 7: "\<not> isAnimating g \<and> moveQueue g = [] \<longrightarrow>
             \<not> isAnimating (fst (scramble g None rnd)) \<and> moveQueue (fst (scramble g None rnd)) = []"
    using scramble_idle [of g None rnd] by blast
  show ?thesis
    by (intro conjI 1 2 3 4 5 7)
qed

lemma foldl_applyCall_queued:
  "isAnimating g \<Longrightarrow>
     foldl applyCall g cs = g\<lparr>moveQueue := moveQueue g @ map (\<lambda>(a, l, d, an). (a, l, d)) cs\<rparr>"
proof (induction cs arbitrary: g)
  case Nil
  show ?case by simp
next
  case (Cons c cs)
  have a: "applyCall g c = g\<lparr>moveQueue := moveQueue g @ [(\<lambda>(a, l, d, an). (a, l, d)) c]\<rparr>"
    by (simp add: applyCall_def rotate_queued [OF Cons.prems] split_def)
  have b: "isAnimating (applyCall g c)"
    using Cons.prems by (simp add: a)
  show ?case
    by (simp add: Cons.IH [OF b]) (simp add: a)
qed

lemma scramble_queued:
  assumes "isAnimating g"
  shows "fst (scramble g movesArg rnd) =
           g\<lparr>moveQueue := moveQueue g @ map (\<lambda>(a, l, d, an). (a, l, d)) (snd (scramble g movesArg rnd)),
             solved := False, moves := 0\<rparr>"
  by (simp add: scramble_def Let_def scrambleLoop_unfold foldl_applyCall_queued [OF assms])

lemma finishTurn_queued:
  assumes "pending g = Some p" "moveQueue g = q # qs"
  shows "isAnimating (finishTurn g)"
    and "moveQueue (finishTurn g) = qs"
    and "moves (finishTurn g) = moves g + 1"
    and "pending (finishTurn g) \<noteq> None"
  using assms
  by (cases p; simp add: finishTurn_def Let_def stopTimer_def rotateAnimated_def beginTurn_sel)+

lemma finishTurn_drain:
  assumes "pending g \<noteq> None" "k \<le> length (moveQueue g)"
  shows "moves ((finishTurn ^^ k) g) = moves g + k
       \<and> moveQueue ((finishTurn ^^ k) g) = drop k (moveQueue g)
       \<and> pending ((finishTurn ^^ k) g) \<noteq> None"
  using assms(2)
proof (induction k)
  case 0
  show ?case using assms(1) by simp
next
  case (Suc k)
  let ?h = "(finishTurn ^^ k) g"
  from Suc have ih: "moves ?h = moves g + k" "moveQueue ?h = drop k (moveQueue g)" "pending ?h \<noteq> None"
    by simp_all
  from ih(3) obtain p where p: "pending ?h = Some p" by auto
  have q: "moveQueue ?h = moveQueue g ! k # drop (Suc k) (moveQueue g)"
    unfolding ih(2) using Suc.prems by (simp add: Cons_nth_drop_Suc)
  show ?case
    using finishTurn_queued [OF p q] ih(1) by simp
qed

text \<open>
  Claim C6 says that \<open>scramble\<close>, called without a count, issues \<open>max(20, 5 N)\<close> turns
  that are not animated, that the move counter is 0 and the solved flag false on
  completion, and that the turns of \<open>scramble\<close> never count toward the displayed move
  total. \<open>scramble\<close> sets \<open>state.moves = 0\<close> after its loop for that purpose, but a call of
  \<open>rotate\<close> made while a turn is in progress only queues the turn: it is begun, and
  \<open>state.moves++\<close> runs, when the queue is processed, after \<open>scramble\<close> has returned.
  The scramble button is not disabled during an animation. On a new cube of size 3,
  while the player's animated turn \<open>rotate('x', 0, 1)\<close> is in progress (the counter is
  1), \<open>scramble()\<close> with every draw 0 makes 20 calls \<open>rotate('x', 0, 1, false)\<close>; at its
  return the counter is 0, the solved flag is false, no piece has moved and the queue
  holds the 20 turns. When the animation of the player's turn ends, the first queued
  turn is begun, as an animated one, and the counter is 1; when the queue has run
  empty, after 21 animations, no turn is in progress and the counter shows 20: every
  turn of \<open>scramble\<close> has been counted.
\<close>

theorem scramble_during_animation:
  "isAnimating (rotate (RubiksCube 3) ''x'' 0 1 True)
     \<and> moves (rotate (RubiksCube 3) ''x'' 0 1 True) = 1
     \<and> scrambledWhileTurning = fst (scramble (rotate (RubiksCube 3) ''x'' 0 1 True) None (\<lambda>j n. 0))
     \<and> snd (scramble (rotate (RubiksCube 3) ''x'' 0 1 True) None (\<lambda>j n. 0))
         = replicate 20 (''x'', 0, 1, False)
     \<and> moves scrambledWhileTurning = 0
     \<and> solved scrambledWhileTurning = False
     \<and> isAnimating scrambledWhileTurning
     \<and> cubies scrambledWhileTurning = cubies (RubiksCube 3)
     \<and> moveQueue scrambledWhileTurning = replicate 20 (''x'', 0, 1)
     \<and> isAnimating (finishTurn scrambledWhileTurning)
     \<and> moves (finishTurn scrambledWhileTurning) = 1
     \<and> length (moveQueue (finishTurn scrambledWhileTurning)) = 19
     \<and> isAnimating ((finishTurn ^^ 21) scrambledWhileTurning) = False
     \<and> moveQueue ((finishTurn ^^ 21) scrambledWhileTurning) = []
     \<and> moves ((finishTurn ^^ 21) scrambledWhileTurning) = 20"
proof -
  let ?g1 = "rotate (RubiksCube 3) ''x'' 0 1 True"
  let ?s = scrambledWhileTurning
  have g1: "?g1 = beginTurn (RubiksCube 3) ''x'' 0 1"
    by (simp add: rotate_def RubiksCube_sel)
  have a: "isAnimating ?g1" by (simp add: g1 beginTurn_sel)
  have m: "moves ?g1 = 1" by (simp add: g1 beginTurn_sel RubiksCube_sel)
  have k: "sizeN ?g1 = 3" "moveQueue ?g1 = []" "cubies ?g1 = cubies (RubiksCube 3)"
    by (simp_all add: g1 beginTurn_sel RubiksCube_sel)
  have c: "loggedCall 3 (\<lambda>j n. 0) = (\<lambda>i. (''x'', 0, 1, False))"
    by (simp add: fun_eq_iff loggedCall_def pick_zero)
  have l: "snd (scramble ?g1 None (\<lambda>j n. 0)) = replicate 20 (''x'', 0, 1, False)"
    by (simp add: scramble_def Let_def scrambleLoop_unfold k(1) c map_replicate_const)
  have s: "?s = ?g1\<lparr>moveQueue := replicate 20 (''x'', 0, 1), solved := False, moves := 0\<rparr>"
    unfolding scrambledWhileTurning_def scramble_queued [OF a] l by (simp add: k(2))
  have p: "pending ?s = Some (''x'', 1, getCubiesInLayer (RubiksCube 3) ''x'' 0)"
    by (simp add: s) (simp add: g1 beginTurn_sel)
  have sel: "moves ?s = 0" "solved ?s = False" "isAnimating ?s" "cubies ?s = cubies (RubiksCube 3)"
    "moveQueue ?s = replicate 20 (''x'', 0, 1)"
    using a by (simp_all add: s k(3))
  have q: "moveQueue ?s = (''x'', 0, 1) # replicate 19 (''x'', 0, 1)"
    unfolding sel(5) by (simp add: eval_nat_numeral)
  note f = finishTurn_queued [OF p q]
  have n: "pending ?s \<noteq> None" "20 \<le> length (moveQueue ?s)"
    by (simp_all add: p sel(5))
  note d = finishTurn_drain [OF n]
  let ?h = "(finishTurn ^^ 20) ?s"
  from d obtain ax dr sl where ph: "pending ?h = Some (ax, dr, sl)"
    by (cases "pending ?h") auto
  have qh: "moveQueue ?h = []"
    using d by (simp add: sel(5))
  have u: "(finishTurn ^^ 21) ?s = finishTurn ?h"
    by (simp add: eval_nat_numeral)
  have e: "isAnimating ((finishTurn ^^ 21) ?s) = False" "moveQueue ((finishTurn ^^ 21) ?s) = []"
    "moves ((finishTurn ^^ 21) ?s) = 20"
    unfolding u using finishTurn_idle [OF ph qh] d by (simp_all add: sel(1))
  show ?thesis
    by (intro conjI a m scrambledWhileTurning_def l sel f(1) e)
       (simp_all add: f sel)
qed

section \<open>The drag gesture and the table\<close>

lemma dragCommand_spec:
  assumes "gestureSpec (applyQuaternion normal (quaternion c)) c dx dy = Some cmd"
  shows "dragCommand normal c dx dy = cmd"
proof -
  let ?w = "applyQuaternion normal (quaternion c)"
  from assms obtain k where k: "classifyNormal ?w = Some k"
    by (auto simp: gestureSpec_def split: option.splits)
  show ?thesis
  proof (cases k)
    case ClassY
    with k have "\<bar>vy ?w\<bar> > 1 / 2"
      by (auto simp: classifyNormal_def split: if_splits)
    with assms k ClassY show ?thesis
      by (auto simp: gestureSpec_def dragCommand_def gestureTable_def dominantComponent_def
          layerCoordinate_def Let_def)
  next
    case ClassX
    with k have "\<not> \<bar>vy ?w\<bar> > 1 / 2" "\<bar>vx ?w\<bar> > 1 / 2"
      by (auto simp: classifyNormal_def split: if_splits)
    with assms k ClassX show ?thesis
      by (auto simp: gestureSpec_def dragCommand_def gestureTable_def dominantComponent_def
          layerCoordinate_def Let_def)
  next
    case ClassZ
    with k have "\<not> \<bar>vy ?w\<bar> > 1 / 2" "\<not> \<bar>vx ?w\<bar> > 1 / 2"
      by (auto simp: classifyNormal_def split: if_splits)
    with assms k ClassZ show ?thesis
      by (auto simp: gestureSpec_def dragCommand_def gestureTable_def dominantComponent_def
          layerCoordinate_def Let_def)
  qed
qed

lemma classifyNormal_unit:
  assumes "vx v * vx v + vy v * vy v + vz v * vz v = 1"
  shows "classifyNormal v \<noteq> None"
proof
  assume "classifyNormal v = None"
  then have h: "\<bar>vy v\<bar> \<le> 1 / 2" "\<bar>vx v\<bar> \<le> 1 / 2" "\<bar>vz v\<bar> \<le> 1 / 2"
    by (auto simp: classifyNormal_def split: if_splits)
  have sq: "a * a \<le> 1 / 4" if "\<bar>a\<bar> \<le> 1 / 2" for a :: rat
  proof -
    have "\<bar>a\<bar> * \<bar>a\<bar> \<le> (1 / 2) * (1 / 2)"
      by (rule mult_mono) (use that in simp_all)
    then show ?thesis by (simp add: abs_mult_self_eq)
  qed
  from sq [OF h(1)] sq [OF h(2)] sq [OF h(3)] assms show False by linarith
qed

text \<open>
  Claim C7. For a drag on a hit piece face with \<open>|dx| > 30\<close> or \<open>|dy| > 30\<close>,
  \<open>onMouseMove\<close> passes exactly one command to \<open>rotate\<close>, the one of the table: the world
  normal of the face is classified as Y, X or Z by the first component, in that order,
  whose magnitude exceeds 0.5; the drag is horizontal iff \<open>|dx| > |dy|\<close>; axis and base
  direction are read from the table, the direction is negated when the dominant
  component of the normal is negative, and the layer is the grid coordinate of the
  hit piece along the chosen axis. By \<open>classifyNormal_unit\<close> every normal of length 1 is
  classified.
\<close>

theorem onMouseMove_command:
  assumes "isDragging p" and "selectedFace p = Some (normal, obj)" and "obj < length (cubies g)"
    and "\<bar>clientX - fst (dragStart p)\<bar> > 30 \<or> \<bar>clientY - snd (dragStart p)\<bar> > 30"
    and "gestureSpec (applyQuaternion normal (quaternion (cubies g ! obj))) (cubies g ! obj)
           (clientX - fst (dragStart p)) (clientY - snd (dragStart p)) = Some cmd"
  shows "onMouseMove g p clientX clientY
           = (rotate g (fst cmd) (fst (snd cmd)) (snd (snd cmd)) True,
              p\<lparr>isDragging := False, selectedFace := None\<rparr>, Some cmd)
       \<and> fst (snd cmd) = layerCoordinate (fst cmd) (cubies g ! obj)"
proof -
  have l: "fst (snd cmd) = layerCoordinate (fst cmd) (cubies g ! obj)"
    using assms(5) by (auto simp: gestureSpec_def Let_def split: option.splits)
  show ?thesis
    using assms(1-4) l by (auto simp: onMouseMove_def Let_def dragCommand_spec [OF assms(5)])
qed

text \<open>
  The theorem at a drag by \<open>(40, 5)\<close> on the top face of the corner piece \<open>(2, 2, 2)\<close> of
  a new cube of size 3: the command is \<open>('z', 2, 1)\<close>.
\<close>

theorem onMouseMove_command_witness:
  "isDragging \<lparr>isDragging = True, dragStart = (0, 0), selectedFace = Some (vec 0 1 0, 25)\<rparr>
     \<and> 25 < length (cubies (RubiksCube 3))
     \<and> \<bar>(40::rat) - 0\<bar> > 30
     \<and> gestureSpec (applyQuaternion (vec 0 1 0) (quaternion (cubies (RubiksCube 3) ! 25)))
          (cubies (RubiksCube 3) ! 25) 40 5 = Some (''z'', 2, 1)
     \<and> onMouseMove (RubiksCube 3)
          \<lparr>isDragging = True, dragStart = (0, 0), selectedFace = Some (vec 0 1 0, 25)\<rparr> 40 5
        = (rotate (RubiksCube 3) ''z'' 2 1 True,
           \<lparr>isDragging = False, dragStart = (0, 0), selectedFace = None\<rparr>, Some (''z'', 2, 1))"
proof -
  let ?p = "\<lparr>isDragging = True, dragStart = (0, 0), selectedFace = Some (vec 0 1 0, 25)\<rparr>"
  have c: "cubies (RubiksCube 3) ! 25 = createCubie 3 1 2 2 2"
    by (simp add: cubies_RubiksCube3 createCube3_nth)
  have 1: "isDragging ?p" "selectedFace ?p = Some (vec 0 1 0, 25)" by simp_all
  have 2: "25 < length (cubies (RubiksCube 3))" by (simp add: cubies_RubiksCube3 createCube3_length)
  have 3: "\<bar>40 - fst (dragStart ?p)\<bar> > 30 \<or> \<bar>5 - snd (dragStart ?p)\<bar> > 30" by simp
  have 4: "gestureSpec (applyQuaternion (vec 0 1 0) (quaternion (cubies (RubiksCube 3) ! 25)))
          (cubies (RubiksCube 3) ! 25) (40 - fst (dragStart ?p)) (5 - snd (dragStart ?p)) = Some (''z'', 2, 1)"
    by (simp add: c createCubie_sel applyQuaternion_identity gestureSpec_def classifyNormal_def
        gestureTable_def dominantComponent_def layerCoordinate_def vec_def Let_def)
  show ?thesis
    using onMouseMove_command [OF 1 2 3 4] 2 4 by simp
qed


section \<open>The solved check and its specification\<close>






lemma length_cubies_keeps:
  "length (cubies (rotate g axis layer direction animate)) = length (cubies g)"
  "length (cubies (finishTurn g)) = length (cubies g)"
  "length (cubies (fst (scramble g movesArg rnd))) = length (cubies g)"
  using rotate_keeps(1) [of g axis layer direction animate, THEN arg_cong, of length]
    finishTurn_keeps(1) [of g, THEN arg_cong, of length]
    scramble_keeps(3) [of g movesArg rnd, THEN arg_cong, of length]
  by simp_all





subsection \<open>A piece that has been turned\<close>














section \<open>Four quarter turns\<close>

lemma rotate_sync_nth:
  assumes "\<not> isAnimating g" "i < length (cubies g)"
  shows "cubies (rotate g axis layer direction False) ! i =
           (if inLayer (sizeN g) (cubeSize g) axis layer (cubies g ! i)
            then settleCubie (sizeN g) (cubeSize g) axis direction (cubies g ! i)
            else cubies g ! i)"
  using assms by (simp add: rotate_sync_sel turnLayer_def)

lemma createCube2: "createCube 2 1 ! 7 = createCubie 2 1 1 1 1" "length (createCube 2 1) = 8"
  by (simp_all add: createCube_def onSurface_def upt_rec)

lemma corner2_in_layer: "inLayer 2 1 ''y'' 1 (createCubie 2 1 1 1 1)"
  by (simp add: eval_settle)

lemma corner2_settled_not_in_layer: "\<not> inLayer 2 1 ''y'' 1 (settleCubie 2 1 ''y'' 1 (createCubie 2 1 1 1 1))"
  by (simp add: eval_settle)

lemma corner2_settled_coordinate: "ud_y (userData (settleCubie 2 1 ''y'' 1 (createCubie 2 1 1 1 1))) = 2"
  by (simp add: eval_settle)

lemma idle_turn_stuck:
  assumes "\<not> isAnimating g \<and> moveQueue g = [] \<and> sizeN g = 2 \<and> cubeSize g = 1
       \<and> length (cubies g) = 8
       \<and> cubies g ! 7 = settleCubie 2 1 ''y'' 1 (createCubie 2 1 1 1 1)"
  shows "\<not> isAnimating (rotate g ''y'' 1 1 False) \<and> moveQueue (rotate g ''y'' 1 1 False) = []
       \<and> sizeN (rotate g ''y'' 1 1 False) = 2 \<and> cubeSize (rotate g ''y'' 1 1 False) = 1
       \<and> length (cubies (rotate g ''y'' 1 1 False)) = 8
       \<and> cubies (rotate g ''y'' 1 1 False) ! 7 = settleCubie 2 1 ''y'' 1 (createCubie 2 1 1 1 1)"
  using assms
  by (simp add: rotate_sync_idle rotate_size length_cubies_keeps rotate_sync_nth corner2_settled_not_in_layer)

text \<open>
  Claim C8 says that four equal quarter turns return every piece of the layer to its
  grid position and orientation. \<open>updateCubiePosition\<close> rounds \<open>position / cubeSize\<close>
  to an integer, while on a cube of even size the grid lies on half-integers. On a new
  cube of size 2 the piece with index 7, at \<open>(1, 1, 1)\<close>, is in layer 1 of axis \<open>y\<close>;
  the first \<open>rotate('y', 1, 1, false)\<close> leaves it with the grid coordinate 2 along \<open>y\<close>,
  outside the cube, the next three turns no longer select it, and after the four turns
  its grid coordinate along \<open>y\<close> is still 2, not 1.
\<close>

theorem four_turns_even_size:
  "gridPosition (cubies (RubiksCube 2) ! 7) = (1, 1, 1)
     \<and> 7 \<in> set (getCubiesInLayer (RubiksCube 2) ''y'' 1)
     \<and> ud_y (userData (cubies (rotate (RubiksCube 2) ''y'' 1 1 False) ! 7)) = 2
     \<and> ud_y (userData (cubies
          (rotate (rotate (rotate (rotate (RubiksCube 2) ''y'' 1 1 False) ''y'' 1 1 False)
             ''y'' 1 1 False) ''y'' 1 1 False) ! 7)) = 2"
proof -
  let ?g1 = "rotate (RubiksCube 2) ''y'' 1 1 False"
  have c2: "cubies (RubiksCube 2) = createCube 2 1" by (simp add: cubies_RubiksCube)
  have a: "gridPosition (cubies (RubiksCube 2) ! 7) = (1, 1, 1)"
    by (simp add: c2 createCube2 gridPosition_createCubie)
  have b: "7 \<in> set (getCubiesInLayer (RubiksCube 2) ''y'' 1)"
    by (simp add: getCubiesInLayer_def RubiksCube_sel c2 createCube2 corner2_in_layer)
  have s1: "\<not> isAnimating ?g1 \<and> moveQueue ?g1 = [] \<and> sizeN ?g1 = 2 \<and> cubeSize ?g1 = 1
       \<and> length (cubies ?g1) = 8
       \<and> cubies ?g1 ! 7 = settleCubie 2 1 ''y'' 1 (createCubie 2 1 1 1 1)"
    by (simp add: rotate_sync_idle rotate_size length_cubies_keeps rotate_sync_nth RubiksCube_sel
        c2 createCube2 corner2_in_layer)
  note s4 = idle_turn_stuck [OF idle_turn_stuck [OF idle_turn_stuck [OF s1]]]
  show ?thesis
    using a b s1 s4 by (simp add: corner2_settled_coordinate)
qed

section \<open>The queue of turns\<close>

text \<open>
  Claim C5 says that a queued request is carried out animated or not according to
  its own flag. The entry pushed to \<open>moveQueue\<close> holds axis, layer and direction only,
  and the entry taken from the queue is passed to \<open>rotate\<close> without an \<open>animate\<close>
  argument. On a new cube of size 3, while \<open>rotate('x', 0, 1, true)\<close> is in progress,
  \<open>rotate('y', 0, 1, false)\<close> is queued exactly as \<open>rotate('y', 0, 1, true)\<close> would be; when the
  first turn ends the queued turn is begun as an animated one: a turn is in progress
  again, and the pieces are those after the first turn alone.
\<close>

theorem queued_turn_animated:
  "isAnimating (rotate (RubiksCube 3) ''x'' 0 1 True)
     \<and> rotate (rotate (RubiksCube 3) ''x'' 0 1 True) ''y'' 0 1 False
         = (rotate (RubiksCube 3) ''x'' 0 1 True)\<lparr>moveQueue := [(''y'', 0, 1)]\<rparr>
     \<and> rotate (rotate (RubiksCube 3) ''x'' 0 1 True) ''y'' 0 1 False
         = rotate (rotate (RubiksCube 3) ''x'' 0 1 True) ''y'' 0 1 True
     \<and> isAnimating (finishTurn (rotate (rotate (RubiksCube 3) ''x'' 0 1 True) ''y'' 0 1 False))
     \<and> pending (finishTurn (rotate (rotate (RubiksCube 3) ''x'' 0 1 True) ''y'' 0 1 False)) \<noteq> None
     \<and> moveQueue (finishTurn (rotate (rotate (RubiksCube 3) ''x'' 0 1 True) ''y'' 0 1 False)) = []
     \<and> cubies (finishTurn (rotate (rotate (RubiksCube 3) ''x'' 0 1 True) ''y'' 0 1 False))
         = cubies (rotate (RubiksCube 3) ''x'' 0 1 False)"
proof -
  let ?g0 = "RubiksCube 3"
  let ?g1 = "rotate ?g0 ''x'' 0 1 True"
  let ?g2 = "rotate ?g1 ''y'' 0 1 False"
  have g1: "?g1 = beginTurn ?g0 ''x'' 0 1"
    by (simp add: rotate_def RubiksCube_sel)
  have a: "isAnimating ?g1" by (simp add: g1 beginTurn_sel)
  have q: "?g2 = ?g1\<lparr>moveQueue := [(''y'', 0, 1)]\<rparr>"
    by (simp add: rotate_queued [OF a]) (simp add: g1 beginTurn_sel RubiksCube_sel)
  have e: "?g2 = rotate ?g1 ''y'' 0 1 True"
    by (simp add: rotate_queued [OF a])
  have p: "pending ?g2 = Some (''x'', 1, getCubiesInLayer ?g0 ''x'' 0)"
    by (simp add: q) (simp add: g1 beginTurn_sel)
  have f: "isAnimating (finishTurn ?g2) \<and> pending (finishTurn ?g2) \<noteq> None
           \<and> moveQueue (finishTurn ?g2) = []"
    using p by (simp add: finishTurn_def Let_def q stopTimer_def rotateAnimated_def beginTurn_sel)
  have k: "cubies ?g2 = cubies ?g0" "sizeN ?g2 = sizeN ?g0" "cubeSize ?g2 = cubeSize ?g0"
    by (simp_all add: rotate_size) (simp add: rotate_def RubiksCube_sel beginTurn_sel)
  have c: "cubies (finishTurn ?g2) = cubies (rotate ?g0 ''x'' 0 1 False)"
    using settleLayer_getCubiesInLayer [of ?g0 "''x''" 1 0]
    by (simp only: finishTurn_sel [OF p] k) (simp add: rotate_sync_sel RubiksCube_sel)
  show ?thesis
    using a q e f c by simp
qed

section \<open>Cubes of odd size stay on their grid\<close>

lemma Math_round_of_int: "Math_round (of_int k) = k"
proof -
  have "\<lfloor>(of_int k :: rat) + 1 / 2\<rfloor> = k"
    by (rule floor_unique) simp_all
  then show ?thesis by (simp add: Math_round_def)
qed

lemma quarter_int: "cosQuarter d = of_int (cosInt d)" "sinQuarter d = of_int (sinInt d)"
  by (simp_all add: cosQuarter_def sinQuarter_def cosInt_def sinInt_def)

lemma quarter_int_cases:
  obtains "cosInt d = 1" "sinInt d = 0" | "cosInt d = 0" "sinInt d = 1"
        | "cosInt d = - 1" "sinInt d = 0" | "cosInt d = 0" "sinInt d = - 1"
proof -
  have "d mod 4 = 0 \<or> d mod 4 = 1 \<or> d mod 4 = 2 \<or> d mod 4 = 3" by presburger
  then show ?thesis
    using that by (auto simp: cosInt_def sinInt_def)
qed

lemma Math_round_int_forms:
  "Math_round (of_int a) = a"
  "Math_round (of_int a - of_int b) = a - b"
  "Math_round (of_int a - of_int b + of_int e) = a - b + e"
  using Math_round_of_int [of a] Math_round_of_int [of "a - b"] Math_round_of_int [of "a - b + e"]
  by simp_all

lemma updateCubiePosition_grid:
  assumes "cs \<noteq> 0" "(of_nat n - 1) / 2 = (of_int m :: rat)"
    and "position c = vec (of_int (x - m) * cs) (of_int (y - m) * cs) (of_int (z - m) * cs)"
  shows "updateCubiePosition n cs c = placeAt n cs (x, y, z) c"
  using assms(1)
  by (simp add: updateCubiePosition_def placeAt_def Let_def assms(2,3) vec_def Math_round_int_forms)

lemma getWorldPosition_grid:
  "getWorldPosition axis d (vec (of_int (x - m) * cs) (of_int (y - m) * cs) (of_int (z - m) * cs))
     = (case turnGrid m axis d (x, y, z) of (x', y', z') \<Rightarrow>
          vec (of_int (x' - m) * cs) (of_int (y' - m) * cs) (of_int (z' - m) * cs))"
  by (simp add: getWorldPosition_def turnGrid_def Let_def quarter_int vec_def algebra_simps)


lemma odd_offset:
  assumes "odd n"
  obtains m where "int n = 2 * m + 1" "(of_nat n - 1) / 2 = (of_int m :: rat)" "0 \<le> m"
proof -
  from assms obtain k where k: "n = 2 * k + 1" by (auto elim: oddE)
  have "(of_nat n - 1) / 2 = (of_int (int k) :: rat)" by (simp add: k)
  moreover have "int n = 2 * int k + 1" by (simp add: k)
  ultimately show ?thesis using that [of "int k"] by simp
qed

lemma settleCubie_grid:
  assumes "cs \<noteq> 0" "(of_nat n - 1) / 2 = (of_int m :: rat)" "cubieAtRest n cs c"
  shows "settleCubie n cs axis d c = placeAt n cs (turnGrid m axis d (gridPosition c)) c"
proof -
  obtain x y z where p: "gridPosition c = (x, y, z)" by (cases "gridPosition c")
  then have u: "ud_x (userData c) = x" "ud_y (userData c) = y" "ud_z (userData c) = z"
    by (simp_all add: gridPosition_def)
  have pos: "position c = vec (of_int (x - m) * cs) (of_int (y - m) * cs) (of_int (z - m) * cs)"
    using assms(3) by (simp add: cubieAtRest_def u assms(2))
  obtain x' y' z' where t: "turnGrid m axis d (x, y, z) = (x', y', z')"
    by (cases "turnGrid m axis d (x, y, z)")
  have "settleCubie n cs axis d c =
      updateCubiePosition n cs (c\<lparr>position := vec (of_int (x' - m) * cs) (of_int (y' - m) * cs) (of_int (z' - m) * cs)\<rparr>)"
    unfolding settleCubie_def pos getWorldPosition_grid t prod.case by (rule refl)
  also have "\<dots> = placeAt n cs (x', y', z')
      (c\<lparr>position := vec (of_int (x' - m) * cs) (of_int (y' - m) * cs) (of_int (z' - m) * cs)\<rparr>)"
    by (rule updateCubiePosition_grid [OF assms(1,2)]) simp
  also have "\<dots> = placeAt n cs (x', y', z') c"
    by (simp add: placeAt_def)
  finally show ?thesis by (simp add: p t)
qed

lemma turnGrid_range:
  assumes "0 \<le> x" "x \<le> 2 * m" "0 \<le> y" "y \<le> 2 * m" "0 \<le> z" "z \<le> 2 * m"
    and "turnGrid m axis d (x, y, z) = (x', y', z')"
  shows "0 \<le> x' \<and> x' \<le> 2 * m \<and> 0 \<le> y' \<and> y' \<le> 2 * m \<and> 0 \<le> z' \<and> z' \<le> 2 * m"
  using assms
  by (cases d rule: quarter_int_cases) (auto simp: turnGrid_def Let_def split: if_splits)

lemma turnGrid_four:
  "turnGrid m axis d (turnGrid m axis d (turnGrid m axis d (turnGrid m axis d p))) = p"
  by (cases p; cases d rule: quarter_int_cases) (simp_all add: turnGrid_def Let_def)

lemma turnGrid_axis:
  "axis = ''x'' \<Longrightarrow> fst (turnGrid m axis d p) = fst p"
  "axis = ''y'' \<Longrightarrow> fst (snd (turnGrid m axis d p)) = fst (snd p)"
  "axis = ''z'' \<Longrightarrow> snd (snd (turnGrid m axis d p)) = snd (snd p)"
  by (cases p; simp add: turnGrid_def Let_def)+

lemma placeAt_simps:
  "gridPosition (placeAt n cs p c) = p"
  "placeAt n cs p (placeAt n cs q c) = placeAt n cs p c"
  "quaternion (placeAt n cs p c) = quaternion c"
  by (cases p; cases q; simp add: placeAt_def gridPosition_def)+

lemma placeAt_atRest:
  "cubieAtRest n cs c \<Longrightarrow> placeAt n cs (gridPosition c) c = c"
  by (simp add: placeAt_def gridPosition_def cubieAtRest_def)

lemma cubieAtRest_placeAt:
  assumes "int n = 2 * m + 1"
    and "0 \<le> x \<and> x \<le> 2 * m \<and> 0 \<le> y \<and> y \<le> 2 * m \<and> 0 \<le> z \<and> z \<le> 2 * m"
  shows "cubieAtRest n cs (placeAt n cs (x, y, z) c)"
  using assms by (simp add: cubieAtRest_def placeAt_def)

lemma cubieAtRest_range:
  assumes "int n = 2 * m + 1" "cubieAtRest n cs c" "gridPosition c = (x, y, z)"
  shows "0 \<le> x \<and> x \<le> 2 * m \<and> 0 \<le> y \<and> y \<le> 2 * m \<and> 0 \<le> z \<and> z \<le> 2 * m"
  using assms by (auto simp: cubieAtRest_def gridPosition_def)

lemma settleCubie_atRest:
  assumes "odd n" "cs \<noteq> 0" "cubieAtRest n cs c"
  shows "cubieAtRest n cs (settleCubie n cs axis d c)"
proof -
  from assms(1) obtain m where m: "int n = 2 * m + 1" "(of_nat n - 1) / 2 = (of_int m :: rat)"
    by (rule odd_offset)
  obtain x y z where p: "gridPosition c = (x, y, z)" by (cases "gridPosition c")
  obtain x' y' z' where t: "turnGrid m axis d (x, y, z) = (x', y', z')"
    by (cases "turnGrid m axis d (x, y, z)")
  have r: "0 \<le> x \<and> x \<le> 2 * m \<and> 0 \<le> y \<and> y \<le> 2 * m \<and> 0 \<le> z \<and> z \<le> 2 * m"
    by (rule cubieAtRest_range [OF m(1) assms(3) p])
  have r': "0 \<le> x' \<and> x' \<le> 2 * m \<and> 0 \<le> y' \<and> y' \<le> 2 * m \<and> 0 \<le> z' \<and> z' \<le> 2 * m"
    using r by (intro turnGrid_range [OF _ _ _ _ _ _ t]) simp_all
  show ?thesis
    unfolding settleCubie_grid [OF assms(2) m(2) assms(3)] p t
    by (rule cubieAtRest_placeAt [OF m(1) r'])
qed


lemma list_all_fold_update:
  assumes "\<And>c. P c \<Longrightarrow> P (f c)"
  shows "list_all P l \<Longrightarrow> list_all P (fold (\<lambda>i l. l[i := f (l ! i)]) sel l)"
proof (induction sel arbitrary: l)
  case Nil
  then show ?case by simp
next
  case (Cons a sel)
  have "list_all P (l[a := f (l ! a)])"
  proof (cases "a < length l")
    case True
    then have "P (f (l ! a))" using Cons.prems assms by (simp add: list_all_length)
    then show ?thesis
      using Cons.prems set_update_subset_insert [of l a "f (l ! a)"] by (auto simp: list_all_iff)
  next
    case False
    then show ?thesis using Cons.prems by (simp add: list_update_beyond)
  qed
  then show ?case using Cons.IH by simp
qed

lemma settleLayer_atRest:
  assumes "odd n" "cs \<noteq> 0" "list_all (cubieAtRest n cs) l"
  shows "list_all (cubieAtRest n cs) (settleLayer n cs axis d sel l)"
  unfolding settleLayer_def
  by (rule list_all_fold_update [OF settleCubie_atRest [OF assms(1,2)] assms(3)])

lemma finishTurn_atRest:
  assumes "odd (sizeN g)" "cubeSize g \<noteq> 0" "atRest g"
  shows "atRest (finishTurn g)"
  using assms settleLayer_atRest [OF assms(1,2)]
  by (auto simp: atRest_def finishTurn_size finishTurn_cubies split: option.split)

lemma rotate_atRest:
  assumes "odd (sizeN g)" "cubeSize g \<noteq> 0" "atRest g"
  shows "atRest (rotate g axis layer direction animate)"
proof -
  have b: "atRest (beginTurn g axis layer direction)"
    using assms(3) by (simp add: atRest_def beginTurn_sel)
  have "atRest (finishTurn (beginTurn g axis layer direction))"
    by (rule finishTurn_atRest) (simp_all add: beginTurn_sel assms b)
  moreover have "atRest (g\<lparr>moveQueue := moveQueue g @ [(axis, layer, direction)]\<rparr>)"
    using assms(3) by (simp add: atRest_def)
  ultimately show ?thesis using b by (simp add: rotate_def Let_def)
qed

lemma foldl_applyCall_atRest:
  "odd (sizeN g) \<Longrightarrow> cubeSize g \<noteq> 0 \<Longrightarrow> atRest g \<Longrightarrow> atRest (foldl applyCall g calls)"
proof (induction calls arbitrary: g)
  case Nil
  then show ?case by simp
next
  case (Cons a calls)
  have "atRest (applyCall g a)"
    unfolding applyCall_def by (rule rotate_atRest [OF Cons.prems])
  then show ?case
    using Cons.IH [of "applyCall g a"] Cons.prems by (simp add: applyCall_def rotate_size)
qed

lemma scramble_atRest:
  assumes "odd (sizeN g)" "cubeSize g \<noteq> 0" "atRest g"
  shows "atRest (fst (scramble g movesArg rnd))"
  using foldl_applyCall_atRest [OF assms]
  by (simp add: scramble_def Let_def scrambleLoop_unfold atRest_def)

lemma cubeSize_RubiksCube_pos: "0 < cubeSize (RubiksCube n)"
  by (simp add: RubiksCube_sel)

lemma reachable_cubeSize: "reachable g \<Longrightarrow> 0 < cubeSize g"
  by (induction rule: reachable.induct)
     (simp_all add: cubeSize_RubiksCube_pos rotate_size finishTurn_size scramble_keeps reset_sel)

lemma reachable_atRest_odd: "reachable g \<Longrightarrow> odd (sizeN g) \<Longrightarrow> atRest g"
proof (induction rule: reachable.induct)
  case (reachable_new n)
  show ?case by (rule atRest_RubiksCube)
next
  case (reachable_rotate g axis layer direction animate)
  then show ?case
    using reachable_cubeSize [of g] by (intro rotate_atRest) (simp_all add: rotate_size)
next
  case (reachable_finish g)
  then show ?case
    using reachable_cubeSize [of g] by (intro finishTurn_atRest) (simp_all add: finishTurn_size)
next
  case (reachable_scramble g movesArg rnd)
  then show ?case
    using reachable_cubeSize [of g] by (intro scramble_atRest) (simp_all add: scramble_keeps)
next
  case (reachable_reset g)
  show ?case by (rule atRest_reset)
qed


lemma turnLayer_turnCubie:
  "turnLayer g axis layer direction = map (turnCubie (sizeN g) (cubeSize g) axis layer direction) (cubies g)"
  by (simp add: turnLayer_def turnCubie_def)

lemma layerCoordinate_placeAt:
  "layerCoordinate axis (placeAt n cs (x, y, z) c) = (if axis = ''x'' then x else if axis = ''y'' then y else z)"
  by (simp add: layerCoordinate_def placeAt_def)

lemma turnGrid_layer:
  assumes "axis \<in> {''x'', ''y'', ''z''}" "turnGrid m axis d (x, y, z) = (x', y', z')"
  shows "(if axis = ''x'' then x' else if axis = ''y'' then y' else z')
       = (if axis = ''x'' then x else if axis = ''y'' then y else z)"
  using assms turnGrid_axis [of axis m d "(x, y, z)"] by auto

lemma turnCubie_placed:
  assumes m: "int n = 2 * m + 1" "(of_nat n - 1) / 2 = (of_int m :: rat)"
    and cs: "1 / 100 \<le> cs" and ax: "axis \<in> {''x'', ''y'', ''z''}"
    and r: "0 \<le> x \<and> x \<le> 2 * m \<and> 0 \<le> y \<and> y \<le> 2 * m \<and> 0 \<le> z \<and> z \<le> 2 * m"
    and l: "(if axis = ''x'' then x else if axis = ''y'' then y else z) = layer"
  shows "turnCubie n cs axis layer d (placeAt n cs (x, y, z) c) = placeAt n cs (turnGrid m axis d (x, y, z)) c"
proof -
  have ne: "cs \<noteq> 0" using cs by auto
  have rest: "cubieAtRest n cs (placeAt n cs (x, y, z) c)"
    by (rule cubieAtRest_placeAt [OF m(1) r])
  have "inLayer n cs axis layer (placeAt n cs (x, y, z) c)"
    using l by (simp add: inLayer_atRest [OF rest cs ax] layerCoordinate_placeAt)
  then show ?thesis
    by (simp add: turnCubie_def settleCubie_grid [OF ne m(2) rest] placeAt_simps)
qed

lemma turnCubie_four:
  assumes "odd n" "1 / 100 \<le> cs" "cubieAtRest n cs c"
  shows "turnCubie n cs axis layer d (turnCubie n cs axis layer d
           (turnCubie n cs axis layer d (turnCubie n cs axis layer d c))) = c"
proof (cases "axis \<in> {''x'', ''y'', ''z''} \<and> layerCoordinate axis c = layer")
  case False
  note outside = False
  have "\<not> inLayer n cs axis layer c"
  proof (cases "axis \<in> {''x'', ''y'', ''z''}")
    case True
    with outside have "layerCoordinate axis c \<noteq> layer" by blast
    then show ?thesis by (simp only: inLayer_atRest [OF assms(3,2) True] not_False_eq_True)
  next
    case False
    then show ?thesis by (rule inLayer_other_axis)
  qed
  then show ?thesis by (simp only: turnCubie_def if_False)
next
  case True
  then have ax: "axis \<in> {''x'', ''y'', ''z''}" and lc: "layerCoordinate axis c = layer" by simp_all
  from assms(1) obtain m where m: "int n = 2 * m + 1" "(of_nat n - 1) / 2 = (of_int m :: rat)"
    by (rule odd_offset)
  obtain x0 y0 z0 where p0: "gridPosition c = (x0, y0, z0)" by (cases "gridPosition c")
  obtain x1 y1 z1 where p1: "turnGrid m axis d (x0, y0, z0) = (x1, y1, z1)"
    by (cases "turnGrid m axis d (x0, y0, z0)")
  obtain x2 y2 z2 where p2: "turnGrid m axis d (x1, y1, z1) = (x2, y2, z2)"
    by (cases "turnGrid m axis d (x1, y1, z1)")
  obtain x3 y3 z3 where p3: "turnGrid m axis d (x2, y2, z2) = (x3, y3, z3)"
    by (cases "turnGrid m axis d (x2, y2, z2)")
  have p4: "turnGrid m axis d (x3, y3, z3) = (x0, y0, z0)"
    using turnGrid_four [of m axis d "(x0, y0, z0)"] by (simp only: p1 p2 p3)
  have r0: "0 \<le> x0 \<and> x0 \<le> 2 * m \<and> 0 \<le> y0 \<and> y0 \<le> 2 * m \<and> 0 \<le> z0 \<and> z0 \<le> 2 * m"
    by (rule cubieAtRest_range [OF m(1) assms(3) p0])
  have r1: "0 \<le> x1 \<and> x1 \<le> 2 * m \<and> 0 \<le> y1 \<and> y1 \<le> 2 * m \<and> 0 \<le> z1 \<and> z1 \<le> 2 * m"
    using r0 by (intro turnGrid_range [OF _ _ _ _ _ _ p1]) simp_all
  have r2: "0 \<le> x2 \<and> x2 \<le> 2 * m \<and> 0 \<le> y2 \<and> y2 \<le> 2 * m \<and> 0 \<le> z2 \<and> z2 \<le> 2 * m"
    using r1 by (intro turnGrid_range [OF _ _ _ _ _ _ p2]) simp_all
  have r3: "0 \<le> x3 \<and> x3 \<le> 2 * m \<and> 0 \<le> y3 \<and> y3 \<le> 2 * m \<and> 0 \<le> z3 \<and> z3 \<le> 2 * m"
    using r2 by (intro turnGrid_range [OF _ _ _ _ _ _ p3]) simp_all
  have u0: "ud_x (userData c) = x0" "ud_y (userData c) = y0" "ud_z (userData c) = z0"
    using p0 by (simp_all add: gridPosition_def)
  have l0: "(if axis = ''x'' then x0 else if axis = ''y'' then y0 else z0) = layer"
    using lc unfolding layerCoordinate_def u0 .
  have l1: "(if axis = ''x'' then x1 else if axis = ''y'' then y1 else z1) = layer"
    using turnGrid_layer [OF ax p1] l0 by (rule trans)
  have l2: "(if axis = ''x'' then x2 else if axis = ''y'' then y2 else z2) = layer"
    using turnGrid_layer [OF ax p2] l1 by (rule trans)
  have l3: "(if axis = ''x'' then x3 else if axis = ''y'' then y3 else z3) = layer"
    using turnGrid_layer [OF ax p3] l2 by (rule trans)
  have c0: "placeAt n cs (x0, y0, z0) c = c"
    using placeAt_atRest [OF assms(3)] by (simp only: p0)
  have t1: "turnCubie n cs axis layer d (placeAt n cs (x0, y0, z0) c) = placeAt n cs (x1, y1, z1) c"
    using turnCubie_placed [OF m assms(2) ax r0 l0, of d c] by (simp only: p1)
  have t2: "turnCubie n cs axis layer d (placeAt n cs (x1, y1, z1) c) = placeAt n cs (x2, y2, z2) c"
    using turnCubie_placed [OF m assms(2) ax r1 l1, of d c] by (simp only: p2)
  have t3: "turnCubie n cs axis layer d (placeAt n cs (x2, y2, z2) c) = placeAt n cs (x3, y3, z3) c"
    using turnCubie_placed [OF m assms(2) ax r2 l2, of d c] by (simp only: p3)
  have t4: "turnCubie n cs axis layer d (placeAt n cs (x3, y3, z3) c) = placeAt n cs (x0, y0, z0) c"
    using turnCubie_placed [OF m assms(2) ax r3 l3, of d c] by (simp only: p4)
  have "turnCubie n cs axis layer d (turnCubie n cs axis layer d
           (turnCubie n cs axis layer d (turnCubie n cs axis layer d (placeAt n cs (x0, y0, z0) c))))
        = placeAt n cs (x0, y0, z0) c"
    by (simp only: t1 t2 t3 t4)
  then show ?thesis by (simp only: c0)
qed

text \<open>
  On a cube of odd size at rest on its grid, with \<open>cubeSize\<close> at least 0.01, four equal
  quarter turns that are not animated return every piece to the state it had.
\<close>

lemma four_turns_odd_size:
  assumes "odd (sizeN g)" "1 / 100 \<le> cubeSize g" "atRest g" "\<not> isAnimating g" "moveQueue g = []"
  shows "cubies (rotate (rotate (rotate (rotate g axis layer d False) axis layer d False)
           axis layer d False) axis layer d False) = cubies g"
proof -
  let ?T = "turnCubie (sizeN g) (cubeSize g) axis layer d"
  have step: "cubies (rotate h axis layer d False) = map ?T (cubies h)
              \<and> \<not> isAnimating (rotate h axis layer d False) \<and> moveQueue (rotate h axis layer d False) = []
              \<and> sizeN (rotate h axis layer d False) = sizeN g \<and> cubeSize (rotate h axis layer d False) = cubeSize g"
    if "\<not> isAnimating h" "moveQueue h = []" "sizeN h = sizeN g" "cubeSize h = cubeSize g" for h
    using that by (simp add: rotate_sync_sel rotate_sync_idle turnLayer_turnCubie)
  let ?g1 = "rotate g axis layer d False"
  let ?g2 = "rotate ?g1 axis layer d False"
  let ?g3 = "rotate ?g2 axis layer d False"
  have s1: "cubies ?g1 = map ?T (cubies g) \<and> \<not> isAnimating ?g1 \<and> moveQueue ?g1 = []
            \<and> sizeN ?g1 = sizeN g \<and> cubeSize ?g1 = cubeSize g"
    by (rule step) (simp_all add: assms)
  have s2: "cubies ?g2 = map ?T (cubies ?g1) \<and> \<not> isAnimating ?g2 \<and> moveQueue ?g2 = []
            \<and> sizeN ?g2 = sizeN g \<and> cubeSize ?g2 = cubeSize g"
    by (rule step) (simp_all add: s1)
  have s3: "cubies ?g3 = map ?T (cubies ?g2) \<and> \<not> isAnimating ?g3 \<and> moveQueue ?g3 = []
            \<and> sizeN ?g3 = sizeN g \<and> cubeSize ?g3 = cubeSize g"
    by (rule step) (simp_all add: s2)
  have s4: "cubies (rotate ?g3 axis layer d False) = map ?T (cubies ?g3)"
    by (rule step [THEN conjunct1]) (simp_all add: s3)
  have "cubies (rotate ?g3 axis layer d False) = map (\<lambda>c. ?T (?T (?T (?T c)))) (cubies g)"
    by (simp add: s4 s3 s2 s1 comp_def)
  also have "\<dots> = cubies g"
    using assms(3) turnCubie_four [OF assms(1,2)]
    by (intro map_idI) (simp add: atRest_def list_all_iff)
  finally show ?thesis .
qed


end
